theory Spec2Isabelle
  imports Main "HOL-Library.AList" "HOL-Library.Char_ord" "HOL-Library.List_Lexorder" "HOL-Library.Option_ord"
begin

section \<open>Data model\<close>

text \<open>
  The wrapper of \<^verbatim>\<open>KvStoreWrapper.cpp\<close> and its test file use thrift types whose
  declarations are outside the source file. The records below carry the fields the source
  reads and writes (\<^verbatim>\<open>version\<close>, \<^verbatim>\<open>originatorId\<close>, \<^verbatim>\<open>value\<close>,
  \<^verbatim>\<open>keyVals\<close>, \<^verbatim>\<open>nodeIds\<close>, \<^verbatim>\<open>keys\<close>, \<^verbatim>\<open>area\<close>, \<^verbatim>\<open>ctrlPort\<close>,
  \<^verbatim>\<open>state\<close>) together with the attributes section 3 of the specification lists.
\<close>

type_synonym AreaId = string

text \<open>
  Modelled from the spec: \<^verbatim>\<open>thrift::Value\<close> (declaration not in the source).
  Section 3: version, originator id, optional value, ttl, ttl version and a fingerprint
  over (version, originator id, value). The fingerprint is kept as the triple it is
  computed over, so that equal fingerprints mean equal records, as section 4.3 states.
\<close>

type_synonym fingerprint = "int \<times> string \<times> string option"

record Value =
  version :: int
  originatorId :: string
  value_opt :: "string option"
  ttl :: int
  ttlVersion :: int
  hash :: "fingerprint option"

text \<open>
  \<^verbatim>\<open>thrift::KeyVals\<close> is a map from key to value record. It is kept as an association
  list with distinct keys; the position of an entry has no meaning.
\<close>

type_synonym KeyVals = "(string \<times> Value) list"

record KeySetParams =
  ksp_keyVals :: KeyVals
  ksp_nodeIds :: "string list option"

record KeyGetParams =
  kgp_keys :: "string list"

record Publication =
  pub_area :: AreaId
  pub_keyVals :: KeyVals
  pub_expiredKeys :: "string list"
  pub_nodeIds :: "string list option"

datatype KvStorePeerState = IDLE | SYNCING | INITIALIZED

datatype KvStorePeerEvent = PEER_ADD | SYNC_RESP_RCVD | THRIFT_API_ERROR

record PeerSpec =
  peerAddr :: string
  ctrlPort :: nat
  state :: KvStorePeerState

type_synonym PeersMap = "(string \<times> PeerSpec) list"

text \<open>
  \<^verbatim>\<open>thrift::InitializationEvent\<close> is an enum declared outside the source file. The
  source compares a dequeued event with \<^verbatim>\<open>KVSTORE_SYNCED\<close>; every other member of the
  enum is represented by \<open>OTHER_EVENT\<close> with its enum value.
\<close>

datatype InitializationEvent = KVSTORE_SYNCED | OTHER_EVENT nat

text \<open>
  Exceptions caught by the wrapper: \<^verbatim>\<open>folly::FutureTimeout\<close> and any other
  \<^verbatim>\<open>std::exception\<close> (with the text \<^verbatim>\<open>folly::exceptionStr\<close> prints).
\<close>

datatype exn = FutureTimeout | StdException string

text \<open>\<^verbatim>\<open>folly::Try\<close>: the completed future holds a value or an exception.\<close>

datatype 'a Try = TryValue 'a | TryException exn

text \<open>\<^verbatim>\<open>folly::exceptionStr\<close>: the text logged for an exception.\<close>

definition exceptionStr :: "exn \<Rightarrow> string" where
  "exceptionStr e = (case e of FutureTimeout \<Rightarrow> ''FutureTimeout'' | StdException s \<Rightarrow> s)"

datatype level = DBG1 | WARNING | ERR

type_synonym logline = "level \<times> string"

definition emptyKeySetParams :: KeySetParams where
  "emptyKeySetParams = \<lparr>ksp_keyVals = [], ksp_nodeIds = None\<rparr>"

definition emptyPublication :: Publication where
  "emptyPublication = \<lparr>pub_area = [], pub_keyVals = [], pub_expiredKeys = [], pub_nodeIds = None\<rparr>"

text \<open>
  \<^verbatim>\<open>map::emplace(key, value)\<close>: inserts only when the key is not yet present.
\<close>

definition emplace :: "string \<Rightarrow> Value \<Rightarrow> KeyVals \<Rightarrow> KeyVals" where
  "emplace k v m = (case map_of m k of None \<Rightarrow> m @ [(k, v)] | Some _ \<Rightarrow> m)"


section \<open>The wrapper operations\<close>

text \<open>
  The wrapper forwards every operation to the \<^verbatim>\<open>KvStore\<close> object \<^verbatim>\<open>kvStore_\<close>, whose
  class is not part of the source file. Each operation below takes the call it forwards to
  as its first argument: a function from the store state \<open>'st\<close> to what the call
  \<^verbatim>\<open>semifuture_...(...).get()\<close> does, namely an exception (\<open>Inl\<close>) or a result
  (\<open>Inr\<close>), and the store state afterwards.
\<close>

subsection \<open>\<^verbatim>\<open>setKey\<close> and \<^verbatim>\<open>setKeys\<close>\<close>

definition setKey ::
  "(AreaId \<Rightarrow> KeySetParams \<Rightarrow> 'st \<Rightarrow> (exn + unit) \<times> 'st) \<Rightarrow>
   AreaId \<Rightarrow> string \<Rightarrow> Value \<Rightarrow> string list option \<Rightarrow> 'st \<Rightarrow> (bool \<times> logline list) \<times> 'st" where
  "setKey setKvStoreKeyVals area key val nodeIds st =
     (let params = emptyKeySetParams\<lparr>ksp_keyVals := emplace key val [], ksp_nodeIds := nodeIds\<rparr>
      in case setKvStoreKeyVals area params st of
           (Inl e, st') \<Rightarrow>
             ((False, [(ERR, ''Exception to set key in kvstore: '' @ exceptionStr e)]), st')
         | (Inr _, st') \<Rightarrow> ((True, []), st'))"

definition setKeys ::
  "(AreaId \<Rightarrow> KeySetParams \<Rightarrow> 'st \<Rightarrow> (exn + unit) \<times> 'st) \<Rightarrow>
   AreaId \<Rightarrow> (string \<times> Value) list \<Rightarrow> string list option \<Rightarrow> 'st \<Rightarrow> (bool \<times> logline list) \<times> 'st" where
  "setKeys setKvStoreKeyVals area keyVals nodeIds st =
     (let params = emptyKeySetParams\<lparr>ksp_nodeIds := nodeIds\<rparr>;
          params = params\<lparr>ksp_keyVals := fold (\<lambda>(key, val) m. emplace key val m) keyVals []\<rparr>
      in case setKvStoreKeyVals area params st of
           (Inl e, st') \<Rightarrow>
             ((False, [(ERR, ''Exception to set key in kvstore: '' @ exceptionStr e)]), st')
         | (Inr _, st') \<Rightarrow> ((True, []), st'))"

subsection \<open>\<^verbatim>\<open>getKey\<close>\<close>

text \<open>
  \<^verbatim>\<open>getKey\<close> is the one operation that bounds its wait. The future returned by the
  store completes after some time with a \<open>Try\<close>, or never; \<^verbatim>\<open>getTry(timeout)\<close> returns
  the \<open>Try\<close> when the future completes within the timeout and throws
  \<^verbatim>\<open>FutureTimeout\<close> otherwise. \<^verbatim>\<open>Constants::kReadTimeout\<close> is declared outside the
  source file and is a parameter.
\<close>

datatype 'a SemiFuture = CompletesAfter nat "'a Try" | NeverCompletes

definition getTry :: "nat \<Rightarrow> 'a SemiFuture \<Rightarrow> exn + 'a Try" where
  "getTry timeout fut =
     (case fut of
        CompletesAfter d t \<Rightarrow> if d \<le> timeout then Inr t else Inl FutureTimeout
      | NeverCompletes \<Rightarrow> Inl FutureTimeout)"

definition getKey ::
  "nat \<Rightarrow> (AreaId \<Rightarrow> KeyGetParams \<Rightarrow> 'st \<Rightarrow> exn + Publication SemiFuture) \<Rightarrow>
   AreaId \<Rightarrow> string \<Rightarrow> 'st \<Rightarrow> Value option \<times> logline list" where
  "getKey kReadTimeout getKvStoreKeyVals area key st =
     (let params = \<lparr>kgp_keys = [key]\<rparr>;
          pub = emptyPublication
      in case (case getKvStoreKeyVals area params st of
                 Inl e \<Rightarrow> Inl e
               | Inr fut \<Rightarrow> getTry kReadTimeout fut) of
           Inr (TryValue p) \<Rightarrow> (map_of (pub_keyVals p) key, [])
         | Inr (TryException e) \<Rightarrow>
             (None, [(ERR, ''Failed to retrieve key from KvStore. Key: '' @ key)])
         | Inl FutureTimeout \<Rightarrow>
             (map_of (pub_keyVals pub) key, [(ERR, ''Timed out retrieving key: '' @ key)])
         | Inl (StdException s) \<Rightarrow>
             (None, [(WARNING, ''Exception to get key from kvstore: '' @ exceptionStr (StdException s))]))"

subsection \<open>\<^verbatim>\<open>dumpAll\<close>\<close>

text \<open>
  \<^verbatim>\<open>KvStoreFilters\<close> is read through \<^verbatim>\<open>getKeyPrefixes\<close> and
  \<^verbatim>\<open>getOriginatorIdList\<close> only, so a filter is the pair of these two lists.
  \<^verbatim>\<open>dumpAll\<close> has no handler: an exception of the call reaches the caller, and the
  first publication of the answer is read without a check that there is one.
\<close>

record KeyDumpParams =
  kdp_prefix :: string
  kdp_originatorIds :: "string list"
  kdp_keys :: "string list option"
  kdp_senderId :: "string option"
  kdp_keyValHashes :: "KeyVals option"

definition emptyKeyDumpParams :: KeyDumpParams where
  "emptyKeyDumpParams =
     \<lparr>kdp_prefix = [], kdp_originatorIds = [], kdp_keys = None, kdp_senderId = None,
      kdp_keyValHashes = None\<rparr>"

fun join :: "string \<Rightarrow> string list \<Rightarrow> string" where
  "join sep [] = []"
| "join sep [x] = x"
| "join sep (x # y # ys) = x @ sep @ join sep (y # ys)"

datatype dump_error = Thrown exn | NoPublication

definition dumpAll ::
  "string \<Rightarrow> (KeyDumpParams \<Rightarrow> AreaId list \<Rightarrow> 'st \<Rightarrow> exn + Publication list) \<Rightarrow>
   AreaId \<Rightarrow> (string list \<times> string list) option \<Rightarrow> 'st \<Rightarrow> dump_error + KeyVals" where
  "dumpAll nodeId dumpKvStoreKeys area filters st =
     (let params =
            (case filters of
               None \<Rightarrow> emptyKeyDumpParams
             | Some (keyPrefixes, originatorIdList) \<Rightarrow>
                 (let keyPrefix = join '','' keyPrefixes;
                      params = emptyKeyDumpParams
                        \<lparr>kdp_prefix := keyPrefix, kdp_originatorIds := originatorIdList,
                         kdp_senderId := Some nodeId\<rparr>
                  in if keyPrefix \<noteq> [] then params\<lparr>kdp_keys := Some keyPrefixes\<rparr> else params))
      in case dumpKvStoreKeys params [area] st of
           Inl e \<Rightarrow> Inl (Thrown e)
         | Inr [] \<Rightarrow> Inl NoPublication
         | Inr (pub # _) \<Rightarrow> Inr (pub_keyVals pub))"

subsection \<open>\<^verbatim>\<open>addPeer\<close>, \<^verbatim>\<open>addPeers\<close> and \<^verbatim>\<open>delPeer\<close>\<close>

definition addPeers ::
  "(AreaId \<Rightarrow> PeersMap \<Rightarrow> 'st \<Rightarrow> (exn + unit) \<times> 'st) \<Rightarrow>
   AreaId \<Rightarrow> PeersMap \<Rightarrow> 'st \<Rightarrow> (bool \<times> logline list) \<times> 'st" where
  "addPeers addUpdateKvStorePeers area peers st =
     (case addUpdateKvStorePeers area peers st of
        (Inl e, st') \<Rightarrow> ((False, [(ERR, ''Failed to add peers: '' @ exceptionStr e)]), st')
      | (Inr _, st') \<Rightarrow> ((True, []), st'))"

definition addPeer ::
  "(AreaId \<Rightarrow> PeersMap \<Rightarrow> 'st \<Rightarrow> (exn + unit) \<times> 'st) \<Rightarrow>
   AreaId \<Rightarrow> string \<Rightarrow> PeerSpec \<Rightarrow> 'st \<Rightarrow> (bool \<times> logline list) \<times> 'st" where
  "addPeer addUpdateKvStorePeers area peerName spec st =
     (let peers = [(peerName, spec)]
      in addPeers addUpdateKvStorePeers area peers st)"

definition delPeer ::
  "(AreaId \<Rightarrow> string list \<Rightarrow> 'st \<Rightarrow> (exn + unit) \<times> 'st) \<Rightarrow>
   AreaId \<Rightarrow> string \<Rightarrow> 'st \<Rightarrow> (bool \<times> logline list) \<times> 'st" where
  "delPeer deleteKvStorePeers area peerName st =
     (case deleteKvStorePeers area [peerName] st of
        (Inl e, st') \<Rightarrow> ((False, [(ERR, ''Failed to delete peers: '' @ exceptionStr e)]), st')
      | (Inr _, st') \<Rightarrow> ((True, []), st'))"

subsection \<open>\<^verbatim>\<open>stop\<close>\<close>

text \<open>
  The part of the wrapper's state that \<^verbatim>\<open>stop\<close> reads and writes: whether the store
  reports running, which of the four queues are closed, whether the service handler
  pointer is set, whether the thrift server runs, whether the store thread has been
  joined, and the sequence of the calls made on these members so far. Log lines are output
  of the operation, not state.
\<close>

datatype queue_id =
  KvStoreUpdatesQueue | DummyPeerUpdatesQueue | DummyKvRequestQueue | LogSampleQueue

datatype call = CloseQueue queue_id | StopThriftServer | StopKvStore | JoinKvStoreThread

record Wrapper =
  kvStoreRunning :: bool
  closedQueues :: "queue_id set"
  kvStoreServiceHandler :: bool
  thriftServerRunning :: bool
  kvStoreThreadJoined :: bool
  calls :: "call list"

definition closeQueue :: "queue_id \<Rightarrow> Wrapper \<Rightarrow> Wrapper" where
  "closeQueue q w = w\<lparr>closedQueues := insert q (closedQueues w), calls := calls w @ [CloseQueue q]\<rparr>"

text \<open>
  Modelled from the spec: \<^verbatim>\<open>stopThriftServer\<close>, \<^verbatim>\<open>KvStore::stop\<close> and
  \<^verbatim>\<open>KvStore::isRunning\<close> are not in the source file. Section 4.6 and section 5: the RPC
  server is released during stop, and a stopped Store is not running.
\<close>

definition stopThriftServer :: "Wrapper \<Rightarrow> Wrapper" where
  "stopThriftServer w = w\<lparr>thriftServerRunning := False, calls := calls w @ [StopThriftServer]\<rparr>"

definition kvStore_stop :: "Wrapper \<Rightarrow> Wrapper" where
  "kvStore_stop w = w\<lparr>kvStoreRunning := False, calls := calls w @ [StopKvStore]\<rparr>"

definition kvStoreThread_join :: "Wrapper \<Rightarrow> Wrapper" where
  "kvStoreThread_join w = w\<lparr>kvStoreThreadJoined := True, calls := calls w @ [JoinKvStoreThread]\<rparr>"

definition stop :: "Wrapper \<Rightarrow> Wrapper \<times> logline list" where
  "stop w =
     (if \<not> kvStoreRunning w then (w, [(DBG1, ''Stopping KvStoreWrapper'')])
      else
        let w = closeQueue KvStoreUpdatesQueue w;
            w = closeQueue DummyPeerUpdatesQueue w;
            w = closeQueue DummyKvRequestQueue w;
            w = closeQueue LogSampleQueue w;
            w = (if kvStoreServiceHandler w then stopThriftServer w else w);
            w = kvStore_stop w;
            w = kvStoreThread_join w
        in (w, [(DBG1, ''Stopping KvStoreWrapper''), (DBG1, ''KvStoreWrapper stopped.'')]))"

subsection \<open>\<^verbatim>\<open>recvPublication\<close> and \<^verbatim>\<open>recvKvStoreSyncedSignal\<close>\<close>

text \<open>
  The updates queue carries a variant: a publication or an initialization event. Other
  threads push to the queue and close it, so the reader is given the schedule of what its
  successive reads meet: \<open>q n\<close> is what the read at position \<open>n\<close> meets, namely an
  item, the closed queue, or nothing ever (\<open>Pending\<close>: the read blocks for good). A read
  that returns an item moves the reader to the next position.

  Both operations are \<^verbatim>\<open>while (true)\<close> loops, so they are partial functions into
  \<open>option\<close>: \<open>None\<close> is the loop that never returns. A returned value is \<open>Inl\<close>
  for the \<^verbatim>\<open>std::runtime_error\<close> thrown to the caller or for the failed
  \<^verbatim>\<open>CHECK\<close> that aborts the process, and \<open>Inr\<close> for a normal return, with the
  reader's new position.
\<close>

datatype qitem = PublicationItem Publication | InitializationEventItem InitializationEvent

datatype qread = Item qitem | QueueClosed | Pending

datatype error = RuntimeError string | CheckFailed

partial_function (option) recvPublication ::
  "(nat \<Rightarrow> qread) \<Rightarrow> nat \<Rightarrow> (error + Publication \<times> nat) option" where
  "recvPublication q n =
     (case q n of
        Pending \<Rightarrow> None
      | QueueClosed \<Rightarrow> Some (Inl (RuntimeError ''recvPublication failed''))
      | Item (PublicationItem pub) \<Rightarrow> Some (Inr (pub, Suc n))
      | Item (InitializationEventItem _) \<Rightarrow> recvPublication q (Suc n))"

partial_function (option) recvKvStoreSyncedSignal ::
  "(nat \<Rightarrow> qread) \<Rightarrow> nat \<Rightarrow> (error + nat) option" where
  "recvKvStoreSyncedSignal q n =
     (case q n of
        Pending \<Rightarrow> None
      | QueueClosed \<Rightarrow> Some (Inl (RuntimeError ''recvPublication failed''))
      | Item (InitializationEventItem event) \<Rightarrow>
          if event = KVSTORE_SYNCED then Some (Inr (Suc n)) else Some (Inl CheckFailed)
      | Item (PublicationItem _) \<Rightarrow> recvKvStoreSyncedSignal q (Suc n))"

text \<open>
  Vocabulary for statements about the two loops: the variant an item holds
  (\<^verbatim>\<open>std::get_if\<close>), the fact that the \<open>d\<close> reads from position \<open>n\<close> on all
  meet items of one kind, and the schedule given by a list of items followed for good by
  the same last read.
\<close>

fun isPublication :: "qitem \<Rightarrow> bool" where
  "isPublication (PublicationItem _) = True"
| "isPublication (InitializationEventItem _) = False"

fun isInitializationEvent :: "qitem \<Rightarrow> bool" where
  "isInitializationEvent (PublicationItem _) = False"
| "isInitializationEvent (InitializationEventItem _) = True"

fun allItems :: "(qitem \<Rightarrow> bool) \<Rightarrow> (nat \<Rightarrow> qread) \<Rightarrow> nat \<Rightarrow> nat \<Rightarrow> bool" where
  "allItems P q n 0 = True"
| "allItems P q n (Suc d) = ((case q n of Item x \<Rightarrow> P x | _ \<Rightarrow> False) \<and> allItems P q (Suc n) d)"

definition scheduleOf :: "qitem list \<Rightarrow> qread \<Rightarrow> nat \<Rightarrow> qread" where
  "scheduleOf xs last_read i = (if i < length xs then Item (xs ! i) else last_read)"


section \<open>The store behind the wrapper\<close>

text \<open>
  The classes \<^verbatim>\<open>KvStore\<close> and \<^verbatim>\<open>KvStoreDb\<close> are not in the source file; the source
  holds only their caller (the wrapper) and their tests. This section models them from
  the specification.
\<close>

subsection \<open>The peer state machine\<close>

text \<open>
  Modelled from the spec: \<^verbatim>\<open>KvStoreDb::getNextState\<close>, called by
  \<^verbatim>\<open>StateTransitionTest\<close> and defined outside the source file. The rows are those of the
  event table of section 4.2, in its order; a pair of state and event without a row has
  no next state.
\<close>

definition transitionTable :: "(KvStorePeerEvent \<times> KvStorePeerState \<times> KvStorePeerState) list" where
  "transitionTable =
     [(PEER_ADD, IDLE, SYNCING),
      (SYNC_RESP_RCVD, SYNCING, INITIALIZED),
      (SYNC_RESP_RCVD, INITIALIZED, INITIALIZED),
      (THRIFT_API_ERROR, SYNCING, IDLE),
      (THRIFT_API_ERROR, INITIALIZED, IDLE)]"

definition getNextState :: "KvStorePeerState \<Rightarrow> KvStorePeerEvent \<Rightarrow> KvStorePeerState option" where
  "getNextState currState event =
     map_option (\<lambda>(ev, old, new). new)
       (find (\<lambda>(ev, old, new). ev = event \<and> old = currState) transitionTable)"

subsection \<open>Dominance and the area database\<close>

text \<open>
  Modelled from the spec: the dominance rule of section 4.1. Rule 1: the larger version
  dominates. Rule 2: on equal versions the lexicographically larger originator id
  dominates. Rule 3: on equal version and originator id the larger value dominates,
  lexicographically over bytes, an absent value being smaller. Rule 4: equal records do
  not dominate each other. The rule reads version, originator id and value only, which is
  what the fingerprint is computed over.
\<close>

definition fingerprintOf :: "Value \<Rightarrow> fingerprint" where
  "fingerprintOf v = (version v, originatorId v, value_opt v)"

definition fp_dominates :: "fingerprint \<Rightarrow> fingerprint \<Rightarrow> bool" where
  "fp_dominates a b =
     (case a of (va, oa, da) \<Rightarrow> case b of (vb, ob, db) \<Rightarrow>
        vb < va \<or> (va = vb \<and> (ob < oa \<or> (oa = ob \<and> db < da))))"

definition dominates :: "Value \<Rightarrow> Value \<Rightarrow> bool" where
  "dominates a b = fp_dominates (fingerprintOf a) (fingerprintOf b)"

datatype set_result = Accepted | Rejected

text \<open>
  Modelled from the spec: the operations \<open>set\<close>, \<open>get\<close>, \<open>dump\<close>, \<open>dump_hashes\<close>
  and \<open>merge\<close> of AreaDb (section 4.1). \<open>set\<close> accepts the incoming record iff it
  dominates the stored one or none is stored; \<open>merge\<close> applies each entry under that rule
  and returns the accepted keys.
\<close>

definition areaDb_set :: "string \<Rightarrow> Value \<Rightarrow> KeyVals \<Rightarrow> set_result \<times> KeyVals" where
  "areaDb_set key incoming db =
     (case map_of db key of
        None \<Rightarrow> (Accepted, db @ [(key, incoming)])
      | Some stored \<Rightarrow>
          if dominates incoming stored then (Accepted, AList.update key incoming db)
          else (Rejected, db))"

definition areaDb_get :: "string \<Rightarrow> KeyVals \<Rightarrow> Value option" where
  "areaDb_get key db = map_of db key"

fun areaDb_merge :: "KeyVals \<Rightarrow> KeyVals \<Rightarrow> string list \<times> KeyVals" where
  "areaDb_merge [] db = ([], db)"
| "areaDb_merge ((key, incoming) # delta) db =
     (case areaDb_set key incoming db of
        (Accepted, db') \<Rightarrow> (case areaDb_merge delta db' of (acc, db'') \<Rightarrow> (key # acc, db''))
      | (Rejected, db') \<Rightarrow> areaDb_merge delta db')"

definition areaDb_dump_hashes :: "KeyVals \<Rightarrow> KeyVals" where
  "areaDb_dump_hashes db =
     map (\<lambda>(key, v). (key, v\<lparr>value_opt := None, hash := Some (fingerprintOf v)\<rparr>)) db"

text \<open>
  Modelled from the spec: \<open>dump(filter)\<close> of AreaDb (section 4.1), with the parameters
  the wrapper builds. A record is listed when its key starts with one of the given
  prefixes (if any are given) and its originator is one of the given originator ids (if
  any are given). The scenarios dump without a filter.
\<close>

definition areaDb_dump :: "KeyDumpParams \<Rightarrow> KeyVals \<Rightarrow> KeyVals" where
  "areaDb_dump params db =
     filter (\<lambda>(key, v).
        (case kdp_keys params of None \<Rightarrow> True | Some ps \<Rightarrow> list_ex (\<lambda>p. take (length p) key = p) ps) \<and>
        (kdp_originatorIds params = [] \<or> originatorId v \<in> set (kdp_originatorIds params))) db"

subsection \<open>A store and its calls\<close>

text \<open>
  Modelled from the spec: a Store (sections 2 and 3) has a node id, the address and port
  of its RPC server, and per configured area an AreaDb and a PeerTable; it pushes one
  publication to its updates queue for every merge that accepted a key (invariant 5 of
  section 3). A call that names an area the Store does not configure fails (section 7,
  caller error).
\<close>

record Area =
  kvs :: KeyVals
  peers :: PeersMap

record Store =
  nodeId :: string
  thriftAddr :: string
  thriftPort :: nat
  areas :: "(AreaId \<times> Area) list"
  published :: "Publication list"

definition invalidArea :: "AreaId \<Rightarrow> exn" where
  "invalidArea area = StdException (''Invalid area: '' @ area)"

definition store_merge :: "AreaId \<Rightarrow> KeyVals \<Rightarrow> Area \<Rightarrow> Store \<Rightarrow> string list \<times> Store" where
  "store_merge area delta a st =
     (case areaDb_merge delta (kvs a) of
        (acc, db') \<Rightarrow>
          (acc,
           st\<lparr>areas := AList.update area (a\<lparr>kvs := db'\<rparr>) (areas st),
              published :=
                (if acc = [] then published st
                 else published st @
                   [emptyPublication\<lparr>pub_area := area, pub_keyVals := filter (\<lambda>(k, v). k \<in> set acc) db'\<rparr>])\<rparr>))"

definition kvStore_setKvStoreKeyVals ::
  "AreaId \<Rightarrow> KeySetParams \<Rightarrow> Store \<Rightarrow> (exn + unit) \<times> Store" where
  "kvStore_setKvStoreKeyVals area params st =
     (case map_of (areas st) area of
        None \<Rightarrow> (Inl (invalidArea area), st)
      | Some a \<Rightarrow> (Inr (), snd (store_merge area (ksp_keyVals params) a st)))"

text \<open>
  Modelled from the spec: \<^verbatim>\<open>getKvStoreKeyVals\<close> and \<^verbatim>\<open>dumpKvStoreKeys\<close> of
  section 6. A read returns a publication with the records of the requested keys that the
  area holds; the run loop answers it after \<open>delay\<close> time units. A dump returns one
  publication per selected area.
\<close>

definition kvStore_getKvStoreKeyVals ::
  "nat \<Rightarrow> AreaId \<Rightarrow> KeyGetParams \<Rightarrow> Store \<Rightarrow> exn + Publication SemiFuture" where
  "kvStore_getKvStoreKeyVals delay area params st =
     Inr (CompletesAfter delay
       (case map_of (areas st) area of
          None \<Rightarrow> TryException (invalidArea area)
        | Some a \<Rightarrow>
            TryValue (emptyPublication
              \<lparr>pub_area := area,
               pub_keyVals := filter (\<lambda>(k, v). k \<in> set (kgp_keys params)) (kvs a)\<rparr>)))"

fun kvStore_dumpKvStoreKeys ::
  "KeyDumpParams \<Rightarrow> AreaId list \<Rightarrow> Store \<Rightarrow> exn + Publication list" where
  "kvStore_dumpKvStoreKeys params [] st = Inr []"
| "kvStore_dumpKvStoreKeys params (area # rest) st =
     (case map_of (areas st) area of
        None \<Rightarrow> Inl (invalidArea area)
      | Some a \<Rightarrow>
          (case kvStore_dumpKvStoreKeys params rest st of
             Inl e \<Rightarrow> Inl e
           | Inr pubs \<Rightarrow>
               Inr (emptyPublication\<lparr>pub_area := area, pub_keyVals := areaDb_dump params (kvs a)\<rparr> # pubs)))"

text \<open>
  Modelled from the spec: adding a peer (section 4.2). An existing entry of the same name
  is removed, the peer is inserted at \<open>IDLE\<close>, and the event \<open>PEER_ADD\<close> is applied.
  An event without a row for the peer's state, or for a peer that is no longer in the
  table, changes nothing.
\<close>

definition peerEvent :: "string \<Rightarrow> KvStorePeerEvent \<Rightarrow> PeersMap \<Rightarrow> PeersMap" where
  "peerEvent peerName event table =
     (case map_of table peerName of
        None \<Rightarrow> table
      | Some spec \<Rightarrow>
          (case getNextState (state spec) event of
             None \<Rightarrow> table
           | Some s \<Rightarrow> AList.update peerName (spec\<lparr>state := s\<rparr>) table))"

definition peerTable_add :: "string \<Rightarrow> PeerSpec \<Rightarrow> PeersMap \<Rightarrow> PeersMap" where
  "peerTable_add peerName spec table =
     peerEvent peerName PEER_ADD (AList.delete peerName table @ [(peerName, spec\<lparr>state := IDLE\<rparr>)])"

definition kvStore_addUpdateKvStorePeers ::
  "AreaId \<Rightarrow> PeersMap \<Rightarrow> Store \<Rightarrow> (exn + unit) \<times> Store" where
  "kvStore_addUpdateKvStorePeers area newPeers st =
     (case map_of (areas st) area of
        None \<Rightarrow> (Inl (invalidArea area), st)
      | Some a \<Rightarrow>
          (Inr (),
           st\<lparr>areas :=
                AList.update area
                  (a\<lparr>peers := fold (\<lambda>(name, spec) t. peerTable_add name spec t) newPeers (peers a)\<rparr>)
                  (areas st)\<rparr>))"

subsection \<open>Several stores, the counters and the sync session\<close>

text \<open>
  Modelled from the spec: the counters of section 6 are written to a process-wide sink
  (section 9), so the stores of one process and the counters form one state.
\<close>

record Counters =
  num_full_sync :: nat
  num_full_sync_success :: nat
  num_full_sync_failure :: nat
  num_finalized_sync :: nat
  num_finalized_sync_success :: nat
  num_finalized_sync_failure :: nat

definition zeroCounters :: Counters where
  "zeroCounters =
     \<lparr>num_full_sync = 0, num_full_sync_success = 0, num_full_sync_failure = 0,
      num_finalized_sync = 0, num_finalized_sync_success = 0, num_finalized_sync_failure = 0\<rparr>"

record World =
  stores :: "Store list"
  counters :: Counters

definition getStore :: "string \<Rightarrow> World \<Rightarrow> Store option" where
  "getStore n w = find (\<lambda>s. nodeId s = n) (stores w)"

definition putStore :: "Store \<Rightarrow> World \<Rightarrow> World" where
  "putStore st w = w\<lparr>stores := map (\<lambda>s. if nodeId s = nodeId st then st else s) (stores w)\<rparr>"

text \<open>
  Modelled from the spec: each wrapper owns one store (section 4.6); the calls of the
  wrapper of node \<open>n\<close> reach the store of that node.
\<close>

definition world_call ::
  "string \<Rightarrow> (Store \<Rightarrow> (exn + 'a) \<times> Store) \<Rightarrow> World \<Rightarrow> (exn + 'a) \<times> World" where
  "world_call n f w =
     (case getStore n w of
        None \<Rightarrow> (Inl (StdException (''No store: '' @ n)), w)
      | Some st \<Rightarrow> (case f st of (r, st') \<Rightarrow> (r, putStore st' w)))"

definition world_read :: "string \<Rightarrow> (Store \<Rightarrow> exn + 'a) \<Rightarrow> World \<Rightarrow> exn + 'a" where
  "world_read n f w =
     (case getStore n w of
        None \<Rightarrow> Inl (StdException (''No store: '' @ n))
      | Some st \<Rightarrow> f st)"

text \<open>
  Modelled from the spec: the 3-way reconciliation of section 4.3, run by the requester
  for one of its peers in state \<open>SYNCING\<close>.

  \<^enum> DumpHashes: the responder, the store reached at the peer's address and port that
    configures the area, returns the fingerprints of its whole area.
  \<^enum> The requester computes \<open>need_from_peer\<close> (the responder's record dominates, or the
    requester lacks the key) and \<open>give_to_peer\<close> (the requester's record dominates; a
    record dominates an absent one, as for \<open>set\<close> in section 4.1); equal records are in
    neither. It fetches and merges the records it needs and sends the records it gives,
    which the responder merges.
  \<^enum> On completion the peer gets \<open>SYNC_RESP_RCVD\<close>; on an RPC error at either step it
    gets \<open>THRIFT_API_ERROR\<close> and the session is abandoned.

  The counters are incremented at these points: \<open>num_full_sync\<close> when the session
  starts, \<open>num_finalized_sync\<close> when the finalizing message is sent, and the matching
  \<open>_success\<close> or \<open>_failure\<close> counter when the step completes or fails. Whether an RPC
  to an address and port goes through is given by \<open>transport\<close>.
\<close>

datatype rpc = DumpHashesRpc | FinalizeSyncRpc

definition hashOf :: "Value \<Rightarrow> fingerprint" where
  "hashOf h = (case hash h of Some f \<Rightarrow> f | None \<Rightarrow> fingerprintOf h)"

definition need_from_peer :: "KeyVals \<Rightarrow> KeyVals \<Rightarrow> string list" where
  "need_from_peer theirHashes mine =
     map fst (filter (\<lambda>(k, h).
        case map_of mine k of
          None \<Rightarrow> True
        | Some v \<Rightarrow> fp_dominates (hashOf h) (fingerprintOf v)) theirHashes)"

definition give_to_peer :: "KeyVals \<Rightarrow> KeyVals \<Rightarrow> KeyVals" where
  "give_to_peer theirHashes mine =
     filter (\<lambda>(k, v).
        case map_of theirHashes k of
          None \<Rightarrow> True
        | Some h \<Rightarrow> fp_dominates (fingerprintOf v) (hashOf h)) mine"

definition responderAt :: "string \<Rightarrow> nat \<Rightarrow> AreaId \<Rightarrow> World \<Rightarrow> Store option" where
  "responderAt addr port area w =
     find (\<lambda>s. thriftAddr s = addr \<and> thriftPort s = port \<and> map_of (areas s) area \<noteq> None) (stores w)"

definition setPeerEvent :: "string \<Rightarrow> AreaId \<Rightarrow> string \<Rightarrow> KvStorePeerEvent \<Rightarrow> World \<Rightarrow> World" where
  "setPeerEvent n area peerName event w =
     (case getStore n w of
        None \<Rightarrow> w
      | Some st \<Rightarrow>
          (case map_of (areas st) area of
             None \<Rightarrow> w
           | Some a \<Rightarrow>
               putStore (st\<lparr>areas := AList.update area (a\<lparr>peers := peerEvent peerName event (peers a)\<rparr>) (areas st)\<rparr>) w))"

definition mergeInto :: "string \<Rightarrow> AreaId \<Rightarrow> KeyVals \<Rightarrow> World \<Rightarrow> World" where
  "mergeInto n area delta w =
     (case getStore n w of
        None \<Rightarrow> w
      | Some st \<Rightarrow>
          (case map_of (areas st) area of
             None \<Rightarrow> w
           | Some a \<Rightarrow> putStore (snd (store_merge area delta a st)) w))"

definition finalizeFullSync ::
  "(rpc \<Rightarrow> string \<Rightarrow> nat \<Rightarrow> bool) \<Rightarrow> string \<Rightarrow> AreaId \<Rightarrow> string \<Rightarrow> PeerSpec \<Rightarrow> KeyVals \<Rightarrow>
   World \<Rightarrow> World" where
  "finalizeFullSync transport n area peerName spec give w =
     (let w = w\<lparr>counters := (counters w)\<lparr>num_finalized_sync := Suc (num_finalized_sync (counters w))\<rparr>\<rparr>
      in case (if transport FinalizeSyncRpc (peerAddr spec) (ctrlPort spec)
               then responderAt (peerAddr spec) (ctrlPort spec) area w else None) of
           None \<Rightarrow>
             setPeerEvent n area peerName THRIFT_API_ERROR
               (w\<lparr>counters := (counters w)
                   \<lparr>num_finalized_sync_failure := Suc (num_finalized_sync_failure (counters w))\<rparr>\<rparr>)
         | Some responder \<Rightarrow>
             setPeerEvent n area peerName SYNC_RESP_RCVD
               (mergeInto (nodeId responder) area give
                  (w\<lparr>counters := (counters w)
                      \<lparr>num_finalized_sync_success := Suc (num_finalized_sync_success (counters w))\<rparr>\<rparr>)))"

definition fullSync ::
  "(rpc \<Rightarrow> string \<Rightarrow> nat \<Rightarrow> bool) \<Rightarrow> string \<Rightarrow> AreaId \<Rightarrow> string \<Rightarrow> World \<Rightarrow> World" where
  "fullSync transport n area peerName w =
     (case getStore n w of
        None \<Rightarrow> w
      | Some requester \<Rightarrow>
     (case map_of (areas requester) area of
        None \<Rightarrow> w
      | Some a \<Rightarrow>
     (case map_of (peers a) peerName of
        None \<Rightarrow> w
      | Some spec \<Rightarrow>
          if state spec \<noteq> SYNCING then w
          else
            (let w = w\<lparr>counters := (counters w)\<lparr>num_full_sync := Suc (num_full_sync (counters w))\<rparr>\<rparr>
             in (case (if transport DumpHashesRpc (peerAddr spec) (ctrlPort spec)
                       then responderAt (peerAddr spec) (ctrlPort spec) area w else None) of
                   None \<Rightarrow>
                     setPeerEvent n area peerName THRIFT_API_ERROR
                       (w\<lparr>counters := (counters w)
                           \<lparr>num_full_sync_failure := Suc (num_full_sync_failure (counters w))\<rparr>\<rparr>)
                 | Some responder \<Rightarrow>
                     (case map_of (areas responder) area of
                        None \<Rightarrow> w
                      | Some ra \<Rightarrow>
                          (let theirHashes = areaDb_dump_hashes (kvs ra);
                               need = need_from_peer theirHashes (kvs a);
                               give = give_to_peer theirHashes (kvs a);
                               records = filter (\<lambda>(k, v). k \<in> set need) (kvs ra);
                               w = mergeInto n area records w;
                               w = w\<lparr>counters := (counters w)
                                     \<lparr>num_full_sync_success := Suc (num_full_sync_success (counters w))\<rparr>\<rparr>
                           in finalizeFullSync transport n area peerName spec give w)))))))"

text \<open>
  Modelled from the spec: quiescence (section 8), the state with no RPC in flight. Every
  sync session that is pending (a peer in state \<open>SYNCING\<close>) has run.
  A session starts no other session, so one pass over the pending sessions is enough.
\<close>

definition pendingSyncs :: "World \<Rightarrow> (string \<times> AreaId \<times> string) list" where
  "pendingSyncs w =
     concat (map (\<lambda>st.
       concat (map (\<lambda>(area, a).
         map (\<lambda>(name, spec). (nodeId st, area, name))
           (filter (\<lambda>(name, spec). state spec = SYNCING) (peers a))) (areas st))) (stores w))"

definition quiesce :: "(rpc \<Rightarrow> string \<Rightarrow> nat \<Rightarrow> bool) \<Rightarrow> World \<Rightarrow> World" where
  "quiesce transport w =
     fold (\<lambda>(n, area, name) w. fullSync transport n area name w) (pendingSyncs w) w"

section \<open>The test scenario \<^verbatim>\<open>UnidirectionThriftFullSync\<close>\<close>

text \<open>
  Modelled from the spec: \<^verbatim>\<open>createThriftValue\<close>, \<^verbatim>\<open>getPeerSpec\<close> and the
  construction of a store are outside the source file. A fresh store configures the one
  test area and holds nothing; its peer spec is its own address and port. The test area's
  name, the servers' address and ports and the default ttl are parameters.
\<close>

definition createThriftValue :: "int \<Rightarrow> int \<Rightarrow> string \<Rightarrow> string \<Rightarrow> Value" where
  "createThriftValue kTtlInfinity ver originator data =
     \<lparr>version = ver, originatorId = originator, value_opt = Some data,
      ttl = kTtlInfinity, ttlVersion = 0, hash = None\<rparr>"

definition createKvStore :: "AreaId \<Rightarrow> string \<Rightarrow> string \<Rightarrow> nat \<Rightarrow> Store" where
  "createKvStore area n addr port =
     \<lparr>nodeId = n, thriftAddr = addr, thriftPort = port,
      areas = [(area, \<lparr>kvs = [], peers = []\<rparr>)], published = []\<rparr>"

definition getPeerSpec :: "Store \<Rightarrow> PeerSpec" where
  "getPeerSpec st = \<lparr>peerAddr = thriftAddr st, ctrlPort = thriftPort st, state = IDLE\<rparr>"

text \<open>
  The steps of the test, in its order: both stores are created and the counters reset;
  \<^verbatim>\<open>setKey\<close> is called on store 1 for \<^verbatim>\<open>keyVersionAs\<close> and on store 2 for
  \<^verbatim>\<open>keyVersionBs\<close> (originator \<^verbatim>\<open>node1\<close> throughout, value \<^verbatim>\<open>value2\<close> on store 2
  except for \<^verbatim>\<open>k1\<close>); store 1 adds store 2 as its peer; the stores are left to
  quiesce, every RPC going through. The result holds the values returned by the
  \<^verbatim>\<open>setKey\<close> and \<^verbatim>\<open>addPeer\<close> calls, and the final state.
\<close>

definition keyVersionAs :: "(string \<times> int) list" where
  "keyVersionAs = [(''key0'', 5), (''key1'', 1), (''key2'', 9), (''key3'', 1)]"

definition keyVersionBs :: "(string \<times> int) list" where
  "keyVersionBs = [(''key1'', 1), (''key2'', 1), (''key3'', 9), (''key4'', 6)]"

definition wrapper_setKey :: "string \<Rightarrow> AreaId \<Rightarrow> string \<Rightarrow> Value \<Rightarrow> World \<Rightarrow> (bool \<times> logline list) \<times> World" where
  "wrapper_setKey n area key val w =
     setKey (\<lambda>area params. world_call n (kvStore_setKvStoreKeyVals area params)) area key val None w"

definition wrapper_addPeer :: "string \<Rightarrow> AreaId \<Rightarrow> string \<Rightarrow> PeerSpec \<Rightarrow> World \<Rightarrow> (bool \<times> logline list) \<times> World" where
  "wrapper_addPeer n area peerName spec w =
     addPeer (\<lambda>area ps. world_call n (kvStore_addUpdateKvStorePeers area ps)) area peerName spec w"

definition wrapper_getKey :: "nat \<Rightarrow> nat \<Rightarrow> string \<Rightarrow> AreaId \<Rightarrow> string \<Rightarrow> World \<Rightarrow> Value option \<times> logline list" where
  "wrapper_getKey kReadTimeout delay n area key w =
     getKey kReadTimeout (\<lambda>area params. world_read n (kvStore_getKvStoreKeyVals delay area params)) area key w"

definition wrapper_dumpAll :: "string \<Rightarrow> AreaId \<Rightarrow> World \<Rightarrow> dump_error + KeyVals" where
  "wrapper_dumpAll n area w =
     dumpAll n (\<lambda>params as. world_read n (kvStore_dumpKvStoreKeys params as)) area None w"

fun setKeyEach :: "string \<Rightarrow> AreaId \<Rightarrow> (string \<times> Value) list \<Rightarrow> World \<Rightarrow> bool list \<times> World" where
  "setKeyEach n area [] w = ([], w)"
| "setKeyEach n area ((key, val) # rest) w =
     (case wrapper_setKey n area key val w of
        ((ok, _), w') \<Rightarrow> (case setKeyEach n area rest w' of (oks, w'') \<Rightarrow> (ok # oks, w'')))"

definition allRpcsSucceed :: "rpc \<Rightarrow> string \<Rightarrow> nat \<Rightarrow> bool" where
  "allRpcsSucceed r addr port = True"

definition unidirectionThriftFullSync ::
  "AreaId \<Rightarrow> string \<Rightarrow> nat \<Rightarrow> nat \<Rightarrow> int \<Rightarrow> bool list \<times> World" where
  "unidirectionThriftFullSync area addr port1 port2 kTtlInfinity =
     (let node1 = ''node-1''; node2 = ''node-2'';
          value1 = ''value-1''; value2 = ''value-2'';
          store1 = createKvStore area node1 addr port1;
          store2 = createKvStore area node2 addr port2;
          w = \<lparr>stores = [store1, store2], counters = zeroCounters\<rparr>;
          (oksA, w) = setKeyEach node1 area
             (map (\<lambda>(key, ver). (key, createThriftValue kTtlInfinity ver node1 value1)) keyVersionAs) w;
          (oksB, w) = setKeyEach node2 area
             (map (\<lambda>(key, ver).
                (key, createThriftValue kTtlInfinity ver node1 (if key = ''key1'' then value1 else value2)))
                keyVersionBs) w;
          ((okPeer, _), w) = wrapper_addPeer node1 area node2 (getPeerSpec store2) w
      in (oksA @ oksB @ [okPeer], quiesce allRpcsSucceed w))"

section \<open>States of the scenario\<close>

text \<open>
  The state after the scenario, and the vocabulary to write down the states it passes
  through: a publication of an area, what a store has published after a merge, the world
  of the two stores of the test given their databases, publications and peers, and the
  counters after one successful session. \<open>s3_dbA\<close> and \<open>s3_dbB\<close> are the records the
  test injects; \<open>s3_expected\<close> are the five records the test expects on both stores.
\<close>

definition pubOf :: "AreaId \<Rightarrow> KeyVals \<Rightarrow> Publication" where
  "pubOf area kv = emptyPublication\<lparr>pub_area := area, pub_keyVals := kv\<rparr>"

definition publishedAfter :: "AreaId \<Rightarrow> string list \<times> KeyVals \<Rightarrow> Publication list \<Rightarrow> Publication list" where
  "publishedAfter area m pubs =
     (if fst m = [] then pubs else pubs @ [pubOf area (filter (\<lambda>(k, v). k \<in> set (fst m)) (snd m))])"

definition s3_storeOf :: "AreaId \<Rightarrow> string \<Rightarrow> string \<Rightarrow> nat \<Rightarrow> KeyVals \<Rightarrow> PeersMap \<Rightarrow> Publication list \<Rightarrow> Store" where
  "s3_storeOf area n addr port db ps pubs =
     \<lparr>nodeId = n, thriftAddr = addr, thriftPort = port,
      areas = [(area, \<lparr>kvs = db, peers = ps\<rparr>)], published = pubs\<rparr>"

definition s3_world ::
  "AreaId \<Rightarrow> string \<Rightarrow> nat \<Rightarrow> nat \<Rightarrow> KeyVals \<Rightarrow> Publication list \<Rightarrow> PeersMap \<Rightarrow>
   KeyVals \<Rightarrow> Publication list \<Rightarrow> Counters \<Rightarrow> World" where
  "s3_world area addr port1 port2 db1 pubs1 peers1 db2 pubs2 c =
     \<lparr>stores = [s3_storeOf area ''node-1'' addr port1 db1 peers1 pubs1,
                s3_storeOf area ''node-2'' addr port2 db2 [] pubs2],
      counters = c\<rparr>"

definition bumpFull :: "Counters \<Rightarrow> Counters" where
  "bumpFull c = c\<lparr>num_full_sync := Suc (num_full_sync c),
                  num_full_sync_success := Suc (num_full_sync_success c),
                  num_finalized_sync := Suc (num_finalized_sync c),
                  num_finalized_sync_success := Suc (num_finalized_sync_success c)\<rparr>"

definition s3_dbA :: "int \<Rightarrow> KeyVals" where
  "s3_dbA t =
     [(''key0'', createThriftValue t 5 ''node-1'' ''value-1''),
      (''key1'', createThriftValue t 1 ''node-1'' ''value-1''),
      (''key2'', createThriftValue t 9 ''node-1'' ''value-1''),
      (''key3'', createThriftValue t 1 ''node-1'' ''value-1'')]"

definition s3_dbB :: "int \<Rightarrow> KeyVals" where
  "s3_dbB t =
     [(''key1'', createThriftValue t 1 ''node-1'' ''value-1''),
      (''key2'', createThriftValue t 1 ''node-1'' ''value-2''),
      (''key3'', createThriftValue t 9 ''node-1'' ''value-2''),
      (''key4'', createThriftValue t 6 ''node-1'' ''value-2'')]"

definition s3_final1 :: "int \<Rightarrow> KeyVals" where
  "s3_final1 t =
     [(''key0'', createThriftValue t 5 ''node-1'' ''value-1''),
      (''key1'', createThriftValue t 1 ''node-1'' ''value-1''),
      (''key2'', createThriftValue t 9 ''node-1'' ''value-1''),
      (''key3'', createThriftValue t 9 ''node-1'' ''value-2''),
      (''key4'', createThriftValue t 6 ''node-1'' ''value-2'')]"

definition s3_final2 :: "int \<Rightarrow> KeyVals" where
  "s3_final2 t =
     [(''key1'', createThriftValue t 1 ''node-1'' ''value-1''),
      (''key2'', createThriftValue t 9 ''node-1'' ''value-1''),
      (''key3'', createThriftValue t 9 ''node-1'' ''value-2''),
      (''key4'', createThriftValue t 6 ''node-1'' ''value-2''),
      (''key0'', createThriftValue t 5 ''node-1'' ''value-1'')]"

definition s3_expected :: "int \<Rightarrow> KeyVals" where
  "s3_expected t =
     [(''key0'', createThriftValue t 5 ''node-1'' ''value-1''),
      (''key1'', createThriftValue t 1 ''node-1'' ''value-1''),
      (''key2'', createThriftValue t 9 ''node-1'' ''value-1''),
      (''key3'', createThriftValue t 9 ''node-1'' ''value-2''),
      (''key4'', createThriftValue t 6 ''node-1'' ''value-2'')]"

definition s3_finalWorld :: "AreaId \<Rightarrow> string \<Rightarrow> nat \<Rightarrow> nat \<Rightarrow> int \<Rightarrow> World" where
  "s3_finalWorld area addr port1 port2 t =
     s3_world area addr port1 port2
       (s3_final1 t)
       (map (\<lambda>kv. pubOf area [kv]) (s3_dbA t) @
          [pubOf area [(''key3'', createThriftValue t 9 ''node-1'' ''value-2''),
                       (''key4'', createThriftValue t 6 ''node-1'' ''value-2'')]])
       [(''node-2'', \<lparr>peerAddr = addr, ctrlPort = port2, state = INITIALIZED\<rparr>)]
       (s3_final2 t)
       (map (\<lambda>kv. pubOf area [kv]) (s3_dbB t) @
          [pubOf area [(''key2'', createThriftValue t 9 ''node-1'' ''value-1''),
                       (''key0'', createThriftValue t 5 ''node-1'' ''value-1'')]])
       (bumpFull zeroCounters)"

definition afterFullSync :: "AreaId \<Rightarrow> string \<Rightarrow> nat \<Rightarrow> nat \<Rightarrow> int \<Rightarrow> World" where
  "afterFullSync area addr port1 port2 t = snd (unidirectionThriftFullSync area addr port1 port2 t)"


section \<open>Concrete inputs\<close>

text \<open>
  A store that configures the area \<open>area\<close> and holds one record, of version 5, under
  \<open>key\<close>; a record of version 1 for the same key; a running wrapper; and schedules of
  the updates queue.
\<close>

definition c1_store :: Store where
  "c1_store = (createKvStore ''area'' ''node-1'' ''::1'' 1)
     \<lparr>areas := [(''area'', \<lparr>kvs = [(''key'', createThriftValue 0 5 ''node-1'' ''value-1'')], peers = []\<rparr>)]\<rparr>"

definition c1_value :: Value where
  "c1_value = createThriftValue 0 1 ''node-1'' ''value-1''"

definition runningWrapper :: Wrapper where
  "runningWrapper =
     \<lparr>kvStoreRunning = True, closedQueues = {}, kvStoreServiceHandler = True,
      thriftServerRunning = True, kvStoreThreadJoined = False, calls = []\<rparr>"

definition c8_schedule :: "nat \<Rightarrow> qread" where
  "c8_schedule =
     scheduleOf [InitializationEventItem KVSTORE_SYNCED,
                 PublicationItem (emptyPublication\<lparr>pub_area := ''area''\<rparr>)] QueueClosed"

definition c8_other_schedule :: "nat \<Rightarrow> qread" where
  "c8_other_schedule i = (if i < 2 then Pending else c8_schedule i)"

definition c9_schedule :: "nat \<Rightarrow> qread" where
  "c9_schedule =
     scheduleOf [PublicationItem (emptyPublication\<lparr>pub_area := ''area''\<rparr>),
                 InitializationEventItem KVSTORE_SYNCED] Pending"

definition c9_bad_schedule :: "nat \<Rightarrow> qread" where
  "c9_bad_schedule = scheduleOf [InitializationEventItem (OTHER_EVENT 0)] Pending"

definition c4_other_event_schedule :: "nat \<Rightarrow> qread" where
  "c4_other_event_schedule =
     scheduleOf [PublicationItem (emptyPublication\<lparr>pub_area := ''area''\<rparr>),
                 InitializationEventItem (OTHER_EVENT 0)] QueueClosed"

definition c8_lost_schedule :: "nat \<Rightarrow> qread" where
  "c8_lost_schedule =
     scheduleOf [InitializationEventItem KVSTORE_SYNCED,
                 PublicationItem (emptyPublication\<lparr>pub_area := ''area''\<rparr>)] Pending"


section \<open>Properties of the wrapper operations\<close>

subsection \<open>Adding one peer\<close>

text \<open>
  Claim C10. For every area, peer name and peer spec, \<^verbatim>\<open>addPeer\<close> does what
  \<^verbatim>\<open>addPeers\<close> does on the one-entry map: the same call on the store, the same
  boolean, the same log lines and the same store state afterwards, whatever the store
  does with the call.
\<close>

theorem addPeer_is_addPeers_singleton:
  "addPeer addUpdateKvStorePeers area peerName spec st =
   addPeers addUpdateKvStorePeers area [(peerName, spec)] st"
  by (simp add: addPeer_def)

subsection \<open>The value returned by \<^verbatim>\<open>setKey\<close> and \<^verbatim>\<open>setKeys\<close>\<close>

text \<open>
  Claim C1, as stated, fails: \<^verbatim>\<open>setKey\<close> does not return whether the write was
  accepted. On the store that holds version 5 under \<open>key\<close>, setting version 1 is
  rejected by the dominance rule (section 4.1), and \<^verbatim>\<open>setKey\<close> returns true.
\<close>

theorem setKey_ignores_acceptance_counterexample:
  "\<not> (fst (fst (setKey kvStore_setKvStoreKeyVals ''area'' ''key'' c1_value None c1_store)) \<longleftrightarrow>
       fst (areaDb_set ''key'' c1_value [(''key'', createThriftValue 0 5 ''node-1'' ''value-1'')]) = Accepted)"
  by (simp add: setKey_def kvStore_setKvStoreKeyVals_def c1_store_def c1_value_def createKvStore_def
      createThriftValue_def emptyKeySetParams_def emplace_def areaDb_set_def dominates_def
      fp_dominates_def fingerprintOf_def store_merge_def)

text \<open>The rejected write leaves the store as it was and publishes nothing.\<close>

lemma setKey_rejected_unchanged:
  "setKey kvStore_setKvStoreKeyVals ''area'' ''key'' c1_value None c1_store = ((True, []), c1_store)"
  by (simp add: setKey_def kvStore_setKvStoreKeyVals_def c1_store_def c1_value_def createKvStore_def
      createThriftValue_def emptyKeySetParams_def emplace_def areaDb_set_def dominates_def
      fp_dominates_def fingerprintOf_def store_merge_def)

text \<open>
  Claim C1, amended. \<^verbatim>\<open>setKey\<close> returns true iff the call
  \<^verbatim>\<open>setKvStoreKeyVals\<close> on the one-entry map returns without an exception, and
  \<^verbatim>\<open>setKeys\<close> returns true iff the one call on the whole batch (the first entry of
  each key) does; both return false iff that call raises. On the modelled store the call
  returns iff the area is configured, whether or not a record is accepted.
\<close>

theorem setKey_true_iff_call_returns:
  "(fst (fst (setKey setKvStoreKeyVals area key val nodeIds st)) \<longleftrightarrow>
      (\<exists>u. fst (setKvStoreKeyVals area \<lparr>ksp_keyVals = [(key, val)], ksp_nodeIds = nodeIds\<rparr> st) = Inr u)) \<and>
   (fst (fst (setKeys setKvStoreKeyVals area keyVals nodeIds st)) \<longleftrightarrow>
      (\<exists>u. fst (setKvStoreKeyVals area
          \<lparr>ksp_keyVals = fold (\<lambda>(key, val) m. emplace key val m) keyVals [], ksp_nodeIds = nodeIds\<rparr> st) = Inr u)) \<and>
   (fst (fst (setKey kvStore_setKvStoreKeyVals area key val nodeIds store)) \<longleftrightarrow>
      map_of (areas store) area \<noteq> None)"
  by (auto simp: setKey_def setKeys_def emptyKeySetParams_def emplace_def kvStore_setKvStoreKeyVals_def
      split: prod.splits sum.splits option.splits)

theorem setKey_true_iff_call_returns_witness:
  "fst (fst (setKey kvStore_setKvStoreKeyVals ''area'' ''key'' c1_value None c1_store)) \<and>
   \<not> fst (fst (setKey kvStore_setKvStoreKeyVals ''other'' ''key'' c1_value None c1_store))"
  using setKey_true_iff_call_returns[of kvStore_setKvStoreKeyVals "''area''" "''key''" c1_value None c1_store]
    setKey_true_iff_call_returns[of kvStore_setKvStoreKeyVals "''other''" "''key''" c1_value None c1_store]
  by (simp add: kvStore_setKvStoreKeyVals_def c1_store_def createKvStore_def)

subsection \<open>\<^verbatim>\<open>getKey\<close>\<close>

lemma map_of_filter_key:
  "map_of (filter (\<lambda>(k, v). k = key) db) key = map_of db key"
  by (induction db) auto

text \<open>
  Claim C5. \<^verbatim>\<open>getKey\<close> returns the record the answer holds for the key, if any. When
  the read timeout expires before the store answers it returns no value and logs the
  timeout; it returns no value too when the answer holds no record for the key, when the
  future completes with an exception and when the call throws. With the modelled store:
  an answer after the timeout gives no value and the logged timeout, and an answer within
  the timeout gives the stored record of the area, or none if the key or the area is
  unknown.
\<close>

theorem getKey_result:
  "(getKvStoreKeyVals area \<lparr>kgp_keys = [key]\<rparr> st = Inr fut \<and> getTry kReadTimeout fut = Inl FutureTimeout \<longrightarrow>
      getKey kReadTimeout getKvStoreKeyVals area key st =
        (None, [(ERR, ''Timed out retrieving key: '' @ key)])) \<and>
   (getKvStoreKeyVals area \<lparr>kgp_keys = [key]\<rparr> st = Inr fut \<and> getTry kReadTimeout fut = Inr (TryValue pub) \<longrightarrow>
      getKey kReadTimeout getKvStoreKeyVals area key st = (map_of (pub_keyVals pub) key, [])) \<and>
   (getKvStoreKeyVals area \<lparr>kgp_keys = [key]\<rparr> st = Inr fut \<and> getTry kReadTimeout fut = Inr (TryException e) \<longrightarrow>
      fst (getKey kReadTimeout getKvStoreKeyVals area key st) = None) \<and>
   (getKvStoreKeyVals area \<lparr>kgp_keys = [key]\<rparr> st = Inl e \<longrightarrow>
      fst (getKey kReadTimeout getKvStoreKeyVals area key st) = None) \<and>
   (kReadTimeout < delay \<longrightarrow>
      getKey kReadTimeout (kvStore_getKvStoreKeyVals delay) area key store =
        (None, [(ERR, ''Timed out retrieving key: '' @ key)])) \<and>
   (delay \<le> kReadTimeout \<longrightarrow>
      fst (getKey kReadTimeout (kvStore_getKvStoreKeyVals delay) area key store) =
        (case map_of (areas store) area of None \<Rightarrow> None | Some a \<Rightarrow> areaDb_get key (kvs a)))"
proof (intro conjI impI)
  show "getKey kReadTimeout (kvStore_getKvStoreKeyVals delay) area key store =
        (None, [(ERR, ''Timed out retrieving key: '' @ key)])" if "kReadTimeout < delay"
    using that by (simp add: getKey_def kvStore_getKvStoreKeyVals_def getTry_def emptyPublication_def)
  show "fst (getKey kReadTimeout (kvStore_getKvStoreKeyVals delay) area key store) =
        (case map_of (areas store) area of None \<Rightarrow> None | Some a \<Rightarrow> areaDb_get key (kvs a))"
    if "delay \<le> kReadTimeout"
    using that
    by (simp add: getKey_def kvStore_getKvStoreKeyVals_def getTry_def emptyPublication_def
        areaDb_get_def map_of_filter_key split: option.splits)
qed (auto simp: getKey_def emptyPublication_def split: exn.splits)

theorem getKey_result_witness:
  "getKey 10 (kvStore_getKvStoreKeyVals 11) ''area'' ''key'' c1_store =
     (None, [(ERR, ''Timed out retrieving key: key'')]) \<and>
   fst (getKey 10 (kvStore_getKvStoreKeyVals 3) ''area'' ''key'' c1_store) =
     Some (createThriftValue 0 5 ''node-1'' ''value-1'') \<and>
   fst (getKey 10 (kvStore_getKvStoreKeyVals 3) ''area'' ''key2'' c1_store) = None \<and>
   fst (getKey 10 (kvStore_getKvStoreKeyVals 3) ''other'' ''key'' c1_store) = None"
  using getKey_result[where kReadTimeout=10 and delay=11 and area="''area''" and key="''key''" and store=c1_store,
        THEN conjunct2, THEN conjunct2, THEN conjunct2, THEN conjunct2]
    getKey_result[where kReadTimeout=10 and delay=3 and area="''area''" and key="''key''" and store=c1_store,
        THEN conjunct2, THEN conjunct2, THEN conjunct2, THEN conjunct2]
    getKey_result[where kReadTimeout=10 and delay=3 and area="''area''" and key="''key2''" and store=c1_store,
        THEN conjunct2, THEN conjunct2, THEN conjunct2, THEN conjunct2]
    getKey_result[where kReadTimeout=10 and delay=3 and area="''other''" and key="''key''" and store=c1_store,
        THEN conjunct2, THEN conjunct2, THEN conjunct2, THEN conjunct2]
  by (simp add: c1_store_def createKvStore_def areaDb_get_def)

subsection \<open>\<^verbatim>\<open>stop\<close>\<close>

text \<open>
  Claim C6. On a wrapper whose store is not running \<^verbatim>\<open>stop\<close> changes nothing; a
  second \<^verbatim>\<open>stop\<close> changes nothing after the first; and on a running wrapper
  \<^verbatim>\<open>stop\<close> closes the updates queue first, then the other queues, stops the thrift
  server if the handler is set, stops the store and joins its thread, after which the
  store is not running.
\<close>

theorem stop_idempotent:
  "(\<not> kvStoreRunning w \<longrightarrow> fst (stop w) = w) \<and>
   fst (stop (fst (stop w))) = fst (stop w) \<and>
   (kvStoreRunning w \<longrightarrow>
      \<not> kvStoreRunning (fst (stop w)) \<and>
      KvStoreUpdatesQueue \<in> closedQueues (fst (stop w)) \<and>
      kvStoreThreadJoined (fst (stop w)) \<and>
      calls (fst (stop w)) =
        calls w @ [CloseQueue KvStoreUpdatesQueue, CloseQueue DummyPeerUpdatesQueue,
                   CloseQueue DummyKvRequestQueue, CloseQueue LogSampleQueue] @
        (if kvStoreServiceHandler w then [StopThriftServer] else []) @
        [StopKvStore, JoinKvStoreThread])"
  by (simp add: stop_def Let_def closeQueue_def stopThriftServer_def kvStore_stop_def
      kvStoreThread_join_def)

theorem stop_idempotent_witness:
  "kvStoreRunning runningWrapper \<and> \<not> kvStoreRunning (fst (stop runningWrapper)) \<and>
   fst (stop (fst (stop runningWrapper))) = fst (stop runningWrapper) \<and>
   calls (fst (stop runningWrapper)) =
     [CloseQueue KvStoreUpdatesQueue, CloseQueue DummyPeerUpdatesQueue,
      CloseQueue DummyKvRequestQueue, CloseQueue LogSampleQueue, StopThriftServer,
      StopKvStore, JoinKvStoreThread]"
  using stop_idempotent[of runningWrapper] stop_idempotent[of "fst (stop runningWrapper)"]
  by (simp add: runningWrapper_def)

subsection \<open>The peer state machine\<close>

text \<open>
  Claim C3. The transition function returns \<open>SYNCING\<close> for (\<open>IDLE\<close>, \<open>PEER_ADD\<close>),
  \<open>INITIALIZED\<close> for (\<open>SYNCING\<close>, \<open>SYNC_RESP_RCVD\<close>), \<open>IDLE\<close> for
  (\<open>SYNCING\<close>, \<open>THRIFT_API_ERROR\<close>), \<open>INITIALIZED\<close> for
  (\<open>INITIALIZED\<close>, \<open>SYNC_RESP_RCVD\<close>) and \<open>IDLE\<close> for
  (\<open>INITIALIZED\<close>, \<open>THRIFT_API_ERROR\<close>), and for every row of the table of section 4.2
  it returns the next state of that row.
\<close>

theorem getNextState_table:
  "getNextState IDLE PEER_ADD = Some SYNCING \<and>
   getNextState SYNCING SYNC_RESP_RCVD = Some INITIALIZED \<and>
   getNextState SYNCING THRIFT_API_ERROR = Some IDLE \<and>
   getNextState INITIALIZED SYNC_RESP_RCVD = Some INITIALIZED \<and>
   getNextState INITIALIZED THRIFT_API_ERROR = Some IDLE \<and>
   (\<forall>(event, old, new) \<in> set transitionTable. getNextState old event = Some new)"
  by (simp add: getNextState_def transitionTable_def)

theorem getNextState_table_witness:
  "(PEER_ADD, IDLE, SYNCING) \<in> set transitionTable \<and> getNextState IDLE PEER_ADD = Some SYNCING"
  using getNextState_table by (simp add: transitionTable_def)

subsection \<open>Reading the updates queue\<close>

lemma allItems_cong:
  "(\<And>i. n \<le> i \<Longrightarrow> q' i = q i) \<Longrightarrow> allItems P q' n d = allItems P q n d"
  by (induction d arbitrary: n) auto

lemma allItems_nth:
  "allItems P q n d \<Longrightarrow> i < d \<Longrightarrow> \<exists>x. q (n + i) = Item x \<and> P x"
proof (induction d arbitrary: n i)
  case 0
  then show ?case by simp
next
  case (Suc d)
  show ?case
  proof (cases i)
    case 0
    with Suc.prems show ?thesis by (auto split: qread.splits)
  next
    case (Suc j)
    with Suc.prems have "allItems P q (Suc n) d" "j < d" by auto
    from Suc.IH[OF this] Suc show ?thesis by simp
  qed
qed

lemma recvPublication_skip:
  "allItems isInitializationEvent q n d \<Longrightarrow> recvPublication q n = recvPublication q (n + d)"
proof (induction d arbitrary: n)
  case 0
  then show ?case by simp
next
  case (Suc d)
  then obtain e where e: "q n = Item (InitializationEventItem e)"
    and rest: "allItems isInitializationEvent q (Suc n) d"
    by (auto split: qread.splits elim: isInitializationEvent.elims)
  have "recvPublication q n = recvPublication q (Suc n)"
    by (subst recvPublication.simps) (simp add: e)
  also have "\<dots> = recvPublication q (Suc n + d)" by (rule Suc.IH[OF rest])
  finally show ?case by simp
qed

lemma recvPublication_returns:
  assumes "allItems isInitializationEvent q n d" and "q (n + d) = Item (PublicationItem pub)"
  shows "recvPublication q n = Some (Inr (pub, Suc (n + d)))"
proof -
  have "recvPublication q (n + d) = Some (Inr (pub, Suc (n + d)))"
    by (subst recvPublication.simps) (simp add: assms(2))
  with recvPublication_skip[OF assms(1)] show ?thesis by simp
qed

lemma recvPublication_closed:
  assumes "allItems isInitializationEvent q n d" and "q (n + d) = QueueClosed"
  shows "recvPublication q n = Some (Inl (RuntimeError ''recvPublication failed''))"
proof -
  have "recvPublication q (n + d) = Some (Inl (RuntimeError ''recvPublication failed''))"
    by (subst recvPublication.simps) (simp add: assms(2))
  with recvPublication_skip[OF assms(1)] show ?thesis by simp
qed

lemma recvPublication_Some:
  assumes "recvPublication q n = Some r"
  shows "\<exists>d. allItems isInitializationEvent q n d \<and>
           ((q (n + d) = QueueClosed \<and> r = Inl (RuntimeError ''recvPublication failed'')) \<or>
            (\<exists>pub. q (n + d) = Item (PublicationItem pub) \<and> r = Inr (pub, Suc (n + d))))"
  using assms
proof (induction q n r rule: recvPublication.raw_induct[rotated 1, consumes 1])
  case (1 recv q n r)
  show ?case
  proof (cases "q n")
    case Pending
    with 1(2) show ?thesis by simp
  next
    case QueueClosed
    with 1(2) have "r = Inl (RuntimeError ''recvPublication failed'')" by simp
    with QueueClosed show ?thesis by (intro exI[of _ 0]) simp
  next
    case (Item x)
    show ?thesis
    proof (cases x)
      case (PublicationItem pub)
      with Item 1(2) have "r = Inr (pub, Suc n)" by simp
      with Item PublicationItem show ?thesis by (intro exI[of _ 0]) simp
    next
      case (InitializationEventItem e)
      with Item 1(2) have "recv q (Suc n) = Some r" by simp
      from 1(1)[OF this] obtain d where d: "allItems isInitializationEvent q (Suc n) d"
        and c: "(q (Suc n + d) = QueueClosed \<and> r = Inl (RuntimeError ''recvPublication failed'')) \<or>
            (\<exists>pub. q (Suc n + d) = Item (PublicationItem pub) \<and> r = Inr (pub, Suc (Suc n + d)))"
        by blast
      from d Item InitializationEventItem have "allItems isInitializationEvent q n (Suc d)" by simp
      with c show ?thesis by (intro exI[of _ "Suc d"]) simp
    qed
  qed
qed

lemma recvPublication_cong:
  assumes "\<And>i. n \<le> i \<Longrightarrow> q' i = q i"
  shows "recvPublication q' n = recvPublication q n"
proof -
  have one: "recvPublication q2 n = Some r"
    if "recvPublication q1 n = Some r" and agree: "\<And>i. n \<le> i \<Longrightarrow> q2 i = q1 i" for q1 q2 r
  proof -
    from recvPublication_Some[OF that(1)] obtain d where d: "allItems isInitializationEvent q1 n d"
      and c: "(q1 (n + d) = QueueClosed \<and> r = Inl (RuntimeError ''recvPublication failed'')) \<or>
            (\<exists>pub. q1 (n + d) = Item (PublicationItem pub) \<and> r = Inr (pub, Suc (n + d)))"
      by blast
    from d allItems_cong[of n q2 q1, OF agree] have d2: "allItems isInitializationEvent q2 n d" by simp
    have at: "q2 (n + d) = q1 (n + d)" by (rule agree) simp
    from c show ?thesis
    proof
      assume "q1 (n + d) = QueueClosed \<and> r = Inl (RuntimeError ''recvPublication failed'')"
      with recvPublication_closed[OF d2] at show ?thesis by simp
    next
      assume "\<exists>pub. q1 (n + d) = Item (PublicationItem pub) \<and> r = Inr (pub, Suc (n + d))"
      then obtain pub where "q1 (n + d) = Item (PublicationItem pub)" "r = Inr (pub, Suc (n + d))"
        by blast
      with recvPublication_returns[OF d2, of pub] at show ?thesis by simp
    qed
  qed
  show ?thesis
  proof (cases "recvPublication q n")
    case (Some r)
    from one[OF Some assms] Some show ?thesis by simp
  next
    case None
    show ?thesis
    proof (cases "recvPublication q' n")
      case None
      with \<open>recvPublication q n = None\<close> show ?thesis by simp
    next
      case (Some r)
      have "recvPublication q n = Some r" by (rule one[OF Some]) (simp add: assms)
      with None show ?thesis by simp
    qed
  qed
qed

lemma recvKvStoreSyncedSignal_skip:
  "allItems isPublication q n d \<Longrightarrow> recvKvStoreSyncedSignal q n = recvKvStoreSyncedSignal q (n + d)"
proof (induction d arbitrary: n)
  case 0
  then show ?case by simp
next
  case (Suc d)
  then obtain pub where pub: "q n = Item (PublicationItem pub)"
    and rest: "allItems isPublication q (Suc n) d"
    by (auto split: qread.splits elim: isPublication.elims)
  have "recvKvStoreSyncedSignal q n = recvKvStoreSyncedSignal q (Suc n)"
    by (subst recvKvStoreSyncedSignal.simps) (simp add: pub)
  also have "\<dots> = recvKvStoreSyncedSignal q (Suc n + d)" by (rule Suc.IH[OF rest])
  finally show ?case by simp
qed

lemma recvKvStoreSyncedSignal_event:
  assumes "allItems isPublication q n d" and "q (n + d) = Item (InitializationEventItem e)"
  shows "recvKvStoreSyncedSignal q n =
           Some (if e = KVSTORE_SYNCED then Inr (Suc (n + d)) else Inl CheckFailed)"
proof -
  have "recvKvStoreSyncedSignal q (n + d) =
          Some (if e = KVSTORE_SYNCED then Inr (Suc (n + d)) else Inl CheckFailed)"
    by (subst recvKvStoreSyncedSignal.simps) (simp add: assms(2))
  with recvKvStoreSyncedSignal_skip[OF assms(1)] show ?thesis by simp
qed

lemma recvKvStoreSyncedSignal_closed:
  assumes "allItems isPublication q n d" and "q (n + d) = QueueClosed"
  shows "recvKvStoreSyncedSignal q n = Some (Inl (RuntimeError ''recvPublication failed''))"
proof -
  have "recvKvStoreSyncedSignal q (n + d) = Some (Inl (RuntimeError ''recvPublication failed''))"
    by (subst recvKvStoreSyncedSignal.simps) (simp add: assms(2))
  with recvKvStoreSyncedSignal_skip[OF assms(1)] show ?thesis by simp
qed

lemma recvKvStoreSyncedSignal_Some:
  assumes "recvKvStoreSyncedSignal q n = Some r"
  shows "\<exists>d. allItems isPublication q n d \<and>
           ((q (n + d) = QueueClosed \<and> r = Inl (RuntimeError ''recvPublication failed'')) \<or>
            (\<exists>e. q (n + d) = Item (InitializationEventItem e) \<and>
                 r = (if e = KVSTORE_SYNCED then Inr (Suc (n + d)) else Inl CheckFailed)))"
  using assms
proof (induction q n r rule: recvKvStoreSyncedSignal.raw_induct[rotated 1, consumes 1])
  case (1 recv q n r)
  show ?case
  proof (cases "q n")
    case Pending
    with 1(2) show ?thesis by simp
  next
    case QueueClosed
    with 1(2) have "r = Inl (RuntimeError ''recvPublication failed'')" by simp
    with QueueClosed show ?thesis by (intro exI[of _ 0]) simp
  next
    case (Item x)
    show ?thesis
    proof (cases x)
      case (InitializationEventItem e)
      with Item 1(2) have "r = (if e = KVSTORE_SYNCED then Inr (Suc n) else Inl CheckFailed)"
        by (simp split: if_splits)
      with Item InitializationEventItem show ?thesis by (intro exI[of _ 0]) simp
    next
      case (PublicationItem pub)
      with Item 1(2) have "recv q (Suc n) = Some r" by simp
      from 1(1)[OF this] obtain d where d: "allItems isPublication q (Suc n) d"
        and c: "(q (Suc n + d) = QueueClosed \<and> r = Inl (RuntimeError ''recvPublication failed'')) \<or>
            (\<exists>e. q (Suc n + d) = Item (InitializationEventItem e) \<and>
                 r = (if e = KVSTORE_SYNCED then Inr (Suc (Suc n + d)) else Inl CheckFailed))"
        by blast
      from d Item PublicationItem have "allItems isPublication q n (Suc d)" by simp
      moreover have "Suc n + d = n + Suc d" by simp
      ultimately show ?thesis using c by (intro exI[of _ "Suc d"]) (simp only: simp_thms)
    qed
  qed
qed

lemma recvKvStoreSyncedSignal_cong:
  assumes "\<And>i. n \<le> i \<Longrightarrow> q' i = q i"
  shows "recvKvStoreSyncedSignal q' n = recvKvStoreSyncedSignal q n"
proof -
  have one: "recvKvStoreSyncedSignal q2 n = Some r"
    if "recvKvStoreSyncedSignal q1 n = Some r" and agree: "\<And>i. n \<le> i \<Longrightarrow> q2 i = q1 i" for q1 q2 r
  proof -
    from recvKvStoreSyncedSignal_Some[OF that(1)] obtain d where d: "allItems isPublication q1 n d"
      and c: "(q1 (n + d) = QueueClosed \<and> r = Inl (RuntimeError ''recvPublication failed'')) \<or>
            (\<exists>e. q1 (n + d) = Item (InitializationEventItem e) \<and>
                 r = (if e = KVSTORE_SYNCED then Inr (Suc (n + d)) else Inl CheckFailed))"
      by blast
    from d allItems_cong[of n q2 q1, OF agree] have d2: "allItems isPublication q2 n d" by simp
    have at: "q2 (n + d) = q1 (n + d)" by (rule agree) simp
    from c show ?thesis
    proof
      assume "q1 (n + d) = QueueClosed \<and> r = Inl (RuntimeError ''recvPublication failed'')"
      with recvKvStoreSyncedSignal_closed[OF d2] at show ?thesis by simp
    next
      assume "\<exists>e. q1 (n + d) = Item (InitializationEventItem e) \<and>
                 r = (if e = KVSTORE_SYNCED then Inr (Suc (n + d)) else Inl CheckFailed)"
      then obtain e where "q1 (n + d) = Item (InitializationEventItem e)"
        "r = (if e = KVSTORE_SYNCED then Inr (Suc (n + d)) else Inl CheckFailed)"
        by blast
      with recvKvStoreSyncedSignal_event[OF d2, of e] at show ?thesis by simp
    qed
  qed
  show ?thesis
  proof (cases "recvKvStoreSyncedSignal q n")
    case (Some r)
    from one[OF Some assms] Some show ?thesis by simp
  next
    case None
    show ?thesis
    proof (cases "recvKvStoreSyncedSignal q' n")
      case None
      with \<open>recvKvStoreSyncedSignal q n = None\<close> show ?thesis by simp
    next
      case (Some r)
      have "recvKvStoreSyncedSignal q n = Some r" by (rule one[OF Some]) (simp add: assms)
      with None show ?thesis by simp
    qed
  qed
qed

lemma c8_schedule_simps:
  "c8_schedule 0 = Item (InitializationEventItem KVSTORE_SYNCED)"
  "c8_schedule (Suc 0) = Item (PublicationItem (emptyPublication\<lparr>pub_area := ''area''\<rparr>))"
  "2 \<le> i \<Longrightarrow> c8_schedule i = QueueClosed"
  by (simp_all add: c8_schedule_def scheduleOf_def)

lemma c9_schedule_simps:
  "c9_schedule 0 = Item (PublicationItem (emptyPublication\<lparr>pub_area := ''area''\<rparr>))"
  "c9_schedule (Suc 0) = Item (InitializationEventItem KVSTORE_SYNCED)"
  "2 \<le> i \<Longrightarrow> c9_schedule i = Pending"
  by (simp_all add: c9_schedule_def scheduleOf_def)

lemma recvPublication_never:
  assumes "\<forall>i. q (n + i) \<noteq> QueueClosed \<and> (\<forall>p. q (n + i) \<noteq> Item (PublicationItem p))"
  shows "recvPublication q n = None"
proof (cases "recvPublication q n")
  case (Some r)
  from recvPublication_Some[OF Some] assms show ?thesis by blast
qed simp

lemma recvKvStoreSyncedSignal_never:
  assumes "\<forall>i. q (n + i) \<noteq> QueueClosed \<and> (\<forall>e. q (n + i) \<noteq> Item (InitializationEventItem e))"
  shows "recvKvStoreSyncedSignal q n = None"
proof (cases "recvKvStoreSyncedSignal q n")
  case (Some r)
  from recvKvStoreSyncedSignal_Some[OF Some] assms show ?thesis by blast
qed simp

lemma c4_other_event_schedule_simps:
  "c4_other_event_schedule 0 = Item (PublicationItem (emptyPublication\<lparr>pub_area := ''area''\<rparr>))"
  "c4_other_event_schedule (Suc 0) = Item (InitializationEventItem (OTHER_EVENT 0))"
  "2 \<le> i \<Longrightarrow> c4_other_event_schedule i = QueueClosed"
  by (simp_all add: c4_other_event_schedule_def scheduleOf_def)

lemma c8_lost_schedule_simps:
  "c8_lost_schedule 0 = Item (InitializationEventItem KVSTORE_SYNCED)"
  "c8_lost_schedule (Suc 0) = Item (PublicationItem (emptyPublication\<lparr>pub_area := ''area''\<rparr>))"
  "2 \<le> i \<Longrightarrow> c8_lost_schedule i = Pending"
  by (simp_all add: c8_lost_schedule_def scheduleOf_def)

text \<open>
  Claim C4, as stated, fails for \<^verbatim>\<open>recvKvStoreSyncedSignal\<close>: an item of its variant
  may arrive without the operation returning it or raising an error to the caller. On the
  queue that holds a publication and then an initialization event other than
  \<open>KVSTORE_SYNCED\<close>, the operation passes the publication, meets the event, and fails
  its \<^verbatim>\<open>CHECK\<close>, which aborts the process: it neither returns nor throws
  \<^verbatim>\<open>recvPublication failed\<close>.
\<close>

theorem recvKvStoreSyncedSignal_other_event_counterexample:
  "isInitializationEvent (InitializationEventItem (OTHER_EVENT 0)) \<and>
   c4_other_event_schedule 1 = Item (InitializationEventItem (OTHER_EVENT 0)) \<and>
   recvKvStoreSyncedSignal c4_other_event_schedule 0 \<noteq> Some (Inr 2) \<and>
   recvKvStoreSyncedSignal c4_other_event_schedule 0 \<noteq>
     Some (Inl (RuntimeError ''recvPublication failed'')) \<and>
   recvKvStoreSyncedSignal c4_other_event_schedule 0 = Some (Inl CheckFailed)"
  using recvKvStoreSyncedSignal_event[of c4_other_event_schedule 0 1 "OTHER_EVENT 0"]
  by (simp add: c4_other_event_schedule_simps)

text \<open>
  Claim C4, amended. \<^verbatim>\<open>recvPublication\<close> returns the first publication it meets,
  after any number of initialization events. \<^verbatim>\<open>recvKvStoreSyncedSignal\<close> stops at the
  first initialization event it meets, after any number of publications: it returns
  normally, without a value, when the event is \<open>KVSTORE_SYNCED\<close>, and fails its
  \<^verbatim>\<open>CHECK\<close> on any other event. Each throws \<^verbatim>\<open>recvPublication failed\<close> when it
  meets the closed queue instead. Each never returns, with no timeout and no error, when
  from its position on the queue is never closed and never holds an item of its variant.
\<close>

theorem recv_blocks_until_match_or_close:
  "(allItems isInitializationEvent q n d \<and> q (n + d) = Item (PublicationItem pub) \<longrightarrow>
      recvPublication q n = Some (Inr (pub, Suc (n + d)))) \<and>
   (allItems isInitializationEvent q n d \<and> q (n + d) = QueueClosed \<longrightarrow>
      recvPublication q n = Some (Inl (RuntimeError ''recvPublication failed''))) \<and>
   ((\<forall>i. q (n + i) \<noteq> QueueClosed \<and> (\<forall>p. q (n + i) \<noteq> Item (PublicationItem p))) \<longrightarrow>
      recvPublication q n = None) \<and>
   (allItems isPublication q n d \<and> q (n + d) = Item (InitializationEventItem event) \<longrightarrow>
      recvKvStoreSyncedSignal q n =
        Some (if event = KVSTORE_SYNCED then Inr (Suc (n + d)) else Inl CheckFailed)) \<and>
   (allItems isPublication q n d \<and> q (n + d) = QueueClosed \<longrightarrow>
      recvKvStoreSyncedSignal q n = Some (Inl (RuntimeError ''recvPublication failed''))) \<and>
   ((\<forall>i. q (n + i) \<noteq> QueueClosed \<and> (\<forall>e. q (n + i) \<noteq> Item (InitializationEventItem e))) \<longrightarrow>
      recvKvStoreSyncedSignal q n = None)"
proof (intro conjI impI)
  assume "allItems isPublication q n d \<and> q (n + d) = Item (InitializationEventItem event)"
  then show "recvKvStoreSyncedSignal q n =
        Some (if event = KVSTORE_SYNCED then Inr (Suc (n + d)) else Inl CheckFailed)"
    using recvKvStoreSyncedSignal_event[of q n d event] by blast
qed (auto simp: recvPublication_returns recvPublication_closed recvKvStoreSyncedSignal_closed
      recvPublication_never recvKvStoreSyncedSignal_never)

theorem recv_blocks_until_match_or_close_witness:
  "recvPublication c8_schedule 0 = Some (Inr (emptyPublication\<lparr>pub_area := ''area''\<rparr>, 2)) \<and>
   recvPublication c8_schedule 2 = Some (Inl (RuntimeError ''recvPublication failed'')) \<and>
   recvPublication c9_schedule 2 = None \<and>
   recvKvStoreSyncedSignal c9_schedule 0 = Some (Inr 2) \<and>
   recvKvStoreSyncedSignal c4_other_event_schedule 0 = Some (Inl CheckFailed) \<and>
   recvKvStoreSyncedSignal c8_schedule 2 = Some (Inl (RuntimeError ''recvPublication failed'')) \<and>
   recvKvStoreSyncedSignal c9_schedule 2 = None"
proof -
  have never: "\<forall>i. c9_schedule (2 + i) \<noteq> QueueClosed \<and>
      (\<forall>p. c9_schedule (2 + i) \<noteq> Item (PublicationItem p)) \<and>
      (\<forall>e. c9_schedule (2 + i) \<noteq> Item (InitializationEventItem e))"
    by (simp add: c9_schedule_simps)
  show ?thesis
    using never
      recv_blocks_until_match_or_close[of c8_schedule 0 1 "emptyPublication\<lparr>pub_area := ''area''\<rparr>"]
      recv_blocks_until_match_or_close[of c8_schedule 2 0]
      recv_blocks_until_match_or_close[of c9_schedule 2]
      recv_blocks_until_match_or_close[of c9_schedule 0 1 _ KVSTORE_SYNCED]
      recv_blocks_until_match_or_close[of c4_other_event_schedule 0 1 _ "OTHER_EVENT 0"]
    by (simp add: c8_schedule_simps c9_schedule_simps c4_other_event_schedule_simps)
qed

text \<open>
  Claim C8. \<^verbatim>\<open>recvPublication\<close> passes over every initialization event it meets: with
  \<open>d\<close> initialization events in front of a publication it returns that publication
  and leaves the reader behind it, and nothing is returned or logged for the \<open>d\<close>
  events. They are lost: if no further initialization event arrives and the queue stays
  open, a following \<^verbatim>\<open>recvKvStoreSyncedSignal\<close> never returns, whatever events were
  passed over. The same holds with the roles exchanged: \<^verbatim>\<open>recvKvStoreSyncedSignal\<close>
  passes over every publication in front of the event it returns at, and a following
  \<^verbatim>\<open>recvPublication\<close> does not get them. Conversely, whenever one of the two returns,
  all it read before the returned item was of the other variant; and what any later read
  does depends only on the queue from the reader's new position on.
\<close>

theorem recv_discards_other_variant:
  "(allItems isInitializationEvent q n d \<and> q (n + d) = Item (PublicationItem pub) \<longrightarrow>
      recvPublication q n = Some (Inr (pub, Suc (n + d))) \<and>
      ((\<forall>i. q (Suc (n + d) + i) \<noteq> QueueClosed \<and>
            (\<forall>e. q (Suc (n + d) + i) \<noteq> Item (InitializationEventItem e))) \<longrightarrow>
         recvKvStoreSyncedSignal q (Suc (n + d)) = None)) \<and>
   (allItems isPublication q n d \<and> q (n + d) = Item (InitializationEventItem KVSTORE_SYNCED) \<longrightarrow>
      recvKvStoreSyncedSignal q n = Some (Inr (Suc (n + d))) \<and>
      ((\<forall>i. q (Suc (n + d) + i) \<noteq> QueueClosed \<and>
            (\<forall>p. q (Suc (n + d) + i) \<noteq> Item (PublicationItem p))) \<longrightarrow>
         recvPublication q (Suc (n + d)) = None)) \<and>
   (recvPublication q n = Some (Inr (pub, n')) \<longrightarrow>
      (\<exists>d. n' = Suc (n + d) \<and> allItems isInitializationEvent q n d \<and>
           q (n + d) = Item (PublicationItem pub))) \<and>
   (recvKvStoreSyncedSignal q n = Some (Inr n') \<longrightarrow>
      (\<exists>d. n' = Suc (n + d) \<and> allItems isPublication q n d \<and>
           q (n + d) = Item (InitializationEventItem KVSTORE_SYNCED))) \<and>
   ((\<forall>i. n' \<le> i \<longrightarrow> q' i = q i) \<longrightarrow>
      recvPublication q' n' = recvPublication q n' \<and>
      recvKvStoreSyncedSignal q' n' = recvKvStoreSyncedSignal q n')"
proof (intro conjI impI)
  assume "allItems isInitializationEvent q n d \<and> q (n + d) = Item (PublicationItem pub)"
  then show "recvPublication q n = Some (Inr (pub, Suc (n + d)))"
    by (simp add: recvPublication_returns)
next
  assume "\<forall>i. q (Suc (n + d) + i) \<noteq> QueueClosed \<and>
            (\<forall>e. q (Suc (n + d) + i) \<noteq> Item (InitializationEventItem e))"
  then show "recvKvStoreSyncedSignal q (Suc (n + d)) = None"
    by (rule recvKvStoreSyncedSignal_never)
next
  assume "allItems isPublication q n d \<and> q (n + d) = Item (InitializationEventItem KVSTORE_SYNCED)"
  then show "recvKvStoreSyncedSignal q n = Some (Inr (Suc (n + d)))"
    using recvKvStoreSyncedSignal_event[of q n d KVSTORE_SYNCED] by simp
next
  assume "\<forall>i. q (Suc (n + d) + i) \<noteq> QueueClosed \<and>
            (\<forall>p. q (Suc (n + d) + i) \<noteq> Item (PublicationItem p))"
  then show "recvPublication q (Suc (n + d)) = None"
    by (rule recvPublication_never)
next
  assume "recvPublication q n = Some (Inr (pub, n'))"
  from recvPublication_Some[OF this]
  show "\<exists>d. n' = Suc (n + d) \<and> allItems isInitializationEvent q n d \<and>
           q (n + d) = Item (PublicationItem pub)"
    by auto
next
  assume "recvKvStoreSyncedSignal q n = Some (Inr n')"
  from recvKvStoreSyncedSignal_Some[OF this]
  show "\<exists>d. n' = Suc (n + d) \<and> allItems isPublication q n d \<and>
           q (n + d) = Item (InitializationEventItem KVSTORE_SYNCED)"
    by (auto split: if_splits)
next
  assume "\<forall>i. n' \<le> i \<longrightarrow> q' i = q i"
  then show "recvPublication q' n' = recvPublication q n'"
    by (intro recvPublication_cong) simp
next
  assume "\<forall>i. n' \<le> i \<longrightarrow> q' i = q i"
  then show "recvKvStoreSyncedSignal q' n' = recvKvStoreSyncedSignal q n'"
    by (intro recvKvStoreSyncedSignal_cong) simp
qed

theorem recv_discards_other_variant_witness:
  "c8_lost_schedule 0 = Item (InitializationEventItem KVSTORE_SYNCED) \<and>
   recvPublication c8_lost_schedule 0 = Some (Inr (emptyPublication\<lparr>pub_area := ''area''\<rparr>, 2)) \<and>
   recvKvStoreSyncedSignal c8_lost_schedule 2 = None \<and>
   c9_schedule 0 = Item (PublicationItem (emptyPublication\<lparr>pub_area := ''area''\<rparr>)) \<and>
   recvKvStoreSyncedSignal c9_schedule 0 = Some (Inr 2) \<and>
   recvPublication c9_schedule 2 = None \<and>
   recvKvStoreSyncedSignal c8_other_schedule 2 = recvKvStoreSyncedSignal c8_schedule 2"
proof -
  have lost: "\<forall>i. c8_lost_schedule (Suc (0 + 1) + i) \<noteq> QueueClosed \<and>
      (\<forall>e. c8_lost_schedule (Suc (0 + 1) + i) \<noteq> Item (InitializationEventItem e))"
    by (simp add: c8_lost_schedule_simps)
  have lost9: "\<forall>i. c9_schedule (Suc (0 + 1) + i) \<noteq> QueueClosed \<and>
      (\<forall>p. c9_schedule (Suc (0 + 1) + i) \<noteq> Item (PublicationItem p))"
    by (simp add: c9_schedule_simps)
  have agree: "\<forall>i. 2 \<le> i \<longrightarrow> c8_other_schedule i = c8_schedule i"
    by (simp add: c8_other_schedule_def)
  show ?thesis
    using lost lost9 agree
      recv_discards_other_variant[where q=c8_lost_schedule and n=0 and d=1 and n'=2
        and pub="emptyPublication\<lparr>pub_area := ''area''\<rparr>" and q'=c8_lost_schedule]
      recv_discards_other_variant[where q=c9_schedule and n=0 and d=1 and n'=2
        and pub="emptyPublication\<lparr>pub_area := ''area''\<rparr>" and q'=c9_schedule]
      recv_discards_other_variant[where q=c8_schedule and n=0 and d=1 and n'=2
        and pub="emptyPublication\<lparr>pub_area := ''area''\<rparr>" and q'=c8_other_schedule]
    by (simp add: c8_lost_schedule_simps c9_schedule_simps c8_schedule_simps numeral_2_eq_2)
qed

text \<open>
  Claim C9. At the first initialization event \<^verbatim>\<open>recvKvStoreSyncedSignal\<close> returns
  normally if the event is \<open>KVSTORE_SYNCED\<close> and fails its \<^verbatim>\<open>CHECK\<close> otherwise.
  When every initialization event on the queue is \<open>KVSTORE_SYNCED\<close>, the
  \<^verbatim>\<open>CHECK\<close> never fails and the operation returns normally at the first
  initialization event.
\<close>

theorem recvKvStoreSyncedSignal_check:
  "(allItems isPublication q n d \<and> q (n + d) = Item (InitializationEventItem e) \<longrightarrow>
      recvKvStoreSyncedSignal q n =
        Some (if e = KVSTORE_SYNCED then Inr (Suc (n + d)) else Inl CheckFailed)) \<and>
   ((\<forall>i ev. q i = Item (InitializationEventItem ev) \<longrightarrow> ev = KVSTORE_SYNCED) \<longrightarrow>
      recvKvStoreSyncedSignal q n \<noteq> Some (Inl CheckFailed) \<and>
      (allItems isPublication q n d \<and> q (n + d) = Item (InitializationEventItem e) \<longrightarrow>
         recvKvStoreSyncedSignal q n = Some (Inr (Suc (n + d)))))"
proof (intro conjI impI)
  assume "allItems isPublication q n d \<and> q (n + d) = Item (InitializationEventItem e)"
  then show "recvKvStoreSyncedSignal q n =
        Some (if e = KVSTORE_SYNCED then Inr (Suc (n + d)) else Inl CheckFailed)"
    by (simp add: recvKvStoreSyncedSignal_event)
next
  assume inv: "\<forall>i ev. q i = Item (InitializationEventItem ev) \<longrightarrow> ev = KVSTORE_SYNCED"
  show "recvKvStoreSyncedSignal q n \<noteq> Some (Inl CheckFailed)"
  proof
    assume "recvKvStoreSyncedSignal q n = Some (Inl CheckFailed)"
    from recvKvStoreSyncedSignal_Some[OF this] obtain d' ev
      where "q (n + d') = Item (InitializationEventItem ev)" "ev \<noteq> KVSTORE_SYNCED"
      by (auto split: if_splits)
    with inv show False by blast
  qed
next
  assume inv: "\<forall>i ev. q i = Item (InitializationEventItem ev) \<longrightarrow> ev = KVSTORE_SYNCED"
    and at: "allItems isPublication q n d \<and> q (n + d) = Item (InitializationEventItem e)"
  from inv at have "e = KVSTORE_SYNCED" by blast
  with at recvKvStoreSyncedSignal_event[of q n d e]
  show "recvKvStoreSyncedSignal q n = Some (Inr (Suc (n + d)))"
    by simp
qed

lemma c9_schedule_invariant:
  "\<forall>i ev. c9_schedule i = Item (InitializationEventItem ev) \<longrightarrow> ev = KVSTORE_SYNCED"
proof (intro allI impI)
  fix i ev
  assume a: "c9_schedule i = Item (InitializationEventItem ev)"
  consider "i = 0" | "i = 1" | "2 \<le> i" by linarith
  then show "ev = KVSTORE_SYNCED"
    using a by cases (simp_all add: c9_schedule_simps)
qed

theorem recvKvStoreSyncedSignal_check_witness:
  "recvKvStoreSyncedSignal c9_schedule 0 = Some (Inr 2) \<and>
   recvKvStoreSyncedSignal c9_schedule 0 \<noteq> Some (Inl CheckFailed) \<and>
   recvKvStoreSyncedSignal c9_bad_schedule 0 = Some (Inl CheckFailed)"
  using c9_schedule_invariant
    recvKvStoreSyncedSignal_check[of c9_schedule 0 1 KVSTORE_SYNCED]
    recvKvStoreSyncedSignal_check[of c9_bad_schedule 0 0 "OTHER_EVENT 0"]
  by (simp add: c9_schedule_simps c9_bad_schedule_def scheduleOf_def)

section \<open>The scenario \<^verbatim>\<open>UnidirectionThriftFullSync\<close>\<close>

subsection \<open>The steps on the world of the two stores\<close>

lemma store_merge_s3:
  "store_merge area delta \<lparr>kvs = db, peers = ps\<rparr> (s3_storeOf area n addr port db ps pubs) =
     (fst (areaDb_merge delta db),
      s3_storeOf area n addr port (snd (areaDb_merge delta db)) ps
        (publishedAfter area (areaDb_merge delta db) pubs))"
  by (simp add: store_merge_def s3_storeOf_def publishedAfter_def pubOf_def split_beta)

lemma getStore_s3:
  "getStore ''node-1'' (s3_world area addr port1 port2 db1 pubs1 peers1 db2 pubs2 c) =
     Some (s3_storeOf area ''node-1'' addr port1 db1 peers1 pubs1)"
  "getStore ''node-2'' (s3_world area addr port1 port2 db1 pubs1 peers1 db2 pubs2 c) =
     Some (s3_storeOf area ''node-2'' addr port2 db2 [] pubs2)"
  by (simp_all add: getStore_def s3_world_def s3_storeOf_def)

lemma putStore_s3:
  "putStore (s3_storeOf area ''node-1'' addr port1 db1' peers1' pubs1')
     (s3_world area addr port1 port2 db1 pubs1 peers1 db2 pubs2 c) =
   s3_world area addr port1 port2 db1' pubs1' peers1' db2 pubs2 c"
  "putStore (s3_storeOf area ''node-2'' addr port2 db2' [] pubs2')
     (s3_world area addr port1 port2 db1 pubs1 peers1 db2 pubs2 c) =
   s3_world area addr port1 port2 db1 pubs1 peers1 db2' pubs2' c"
  by (simp_all add: putStore_def s3_world_def s3_storeOf_def)

lemma areas_s3:
  "map_of (areas (s3_storeOf area n addr port db ps pubs)) area = Some \<lparr>kvs = db, peers = ps\<rparr>"
  by (simp add: s3_storeOf_def)

lemma wrapper_setKey_s3:
  "wrapper_setKey ''node-1'' area key val (s3_world area addr port1 port2 db1 pubs1 peers1 db2 pubs2 c) =
     ((True, []), s3_world area addr port1 port2 (snd (areaDb_merge [(key, val)] db1))
        (publishedAfter area (areaDb_merge [(key, val)] db1) pubs1) peers1 db2 pubs2 c)"
  "wrapper_setKey ''node-2'' area key val (s3_world area addr port1 port2 db1 pubs1 peers1 db2 pubs2 c) =
     ((True, []), s3_world area addr port1 port2 db1 pubs1 peers1 (snd (areaDb_merge [(key, val)] db2))
        (publishedAfter area (areaDb_merge [(key, val)] db2) pubs2) c)"
  by (simp_all add: wrapper_setKey_def setKey_def world_call_def kvStore_setKvStoreKeyVals_def
      emptyKeySetParams_def emplace_def getStore_s3 areas_s3 store_merge_s3 putStore_s3)

lemma wrapper_addPeer_s3:
  "wrapper_addPeer ''node-1'' area ''node-2'' spec
     (s3_world area addr port1 port2 db1 pubs1 [] db2 pubs2 c) =
   ((True, []), s3_world area addr port1 port2 db1 pubs1 [(''node-2'', spec\<lparr>state := SYNCING\<rparr>)] db2 pubs2 c)"
proof -
  have upd: "(s3_storeOf area ''node-1'' addr port1 db1 [] pubs1)
      \<lparr>areas := AList.update area \<lparr>kvs = db1, peers = ps\<rparr>
         (areas (s3_storeOf area ''node-1'' addr port1 db1 [] pubs1))\<rparr> =
      s3_storeOf area ''node-1'' addr port1 db1 ps pubs1" for ps
    by (simp add: s3_storeOf_def)
  show ?thesis
    by (simp add: wrapper_addPeer_def addPeer_def addPeers_def world_call_def
        kvStore_addUpdateKvStorePeers_def getStore_s3 areas_s3 peerTable_add_def peerEvent_def
        getNextState_def transitionTable_def upd putStore_s3)
qed

lemma responderAt_s3:
  "port1 \<noteq> port2 \<Longrightarrow>
   responderAt addr port2 area (s3_world area addr port1 port2 db1 pubs1 peers1 db2 pubs2 c) =
     Some (s3_storeOf area ''node-2'' addr port2 db2 [] pubs2)"
  by (simp add: responderAt_def s3_world_def s3_storeOf_def)

lemma counters_s3:
  "counters (s3_world area addr port1 port2 db1 pubs1 peers1 db2 pubs2 c) = c"
  "(s3_world area addr port1 port2 db1 pubs1 peers1 db2 pubs2 c)\<lparr>counters := c'\<rparr> =
     s3_world area addr port1 port2 db1 pubs1 peers1 db2 pubs2 c'"
  by (simp_all add: s3_world_def)

lemma nodeId_s3: "nodeId (s3_storeOf area n addr port db ps pubs) = n"
  by (simp add: s3_storeOf_def)

lemma mergeInto_s3:
  "mergeInto ''node-1'' area delta (s3_world area addr port1 port2 db1 pubs1 peers1 db2 pubs2 c) =
     s3_world area addr port1 port2 (snd (areaDb_merge delta db1))
       (publishedAfter area (areaDb_merge delta db1) pubs1) peers1 db2 pubs2 c"
  "mergeInto ''node-2'' area delta (s3_world area addr port1 port2 db1 pubs1 peers1 db2 pubs2 c) =
     s3_world area addr port1 port2 db1 pubs1 peers1 (snd (areaDb_merge delta db2))
       (publishedAfter area (areaDb_merge delta db2) pubs2) c"
  by (simp_all add: mergeInto_def getStore_s3 areas_s3 store_merge_s3 putStore_s3)

lemma setPeerEvent_s3:
  "setPeerEvent ''node-1'' area ''node-2'' SYNC_RESP_RCVD
     (s3_world area addr port1 port2 db1 pubs1 [(''node-2'', \<lparr>peerAddr = a, ctrlPort = p, state = SYNCING\<rparr>)] db2 pubs2 c) =
   s3_world area addr port1 port2 db1 pubs1 [(''node-2'', \<lparr>peerAddr = a, ctrlPort = p, state = INITIALIZED\<rparr>)] db2 pubs2 c"
proof -
  have upd: "(s3_storeOf area ''node-1'' addr port1 db1 ps0 pubs1)
      \<lparr>areas := AList.update area \<lparr>kvs = db1, peers = ps\<rparr>
         (areas (s3_storeOf area ''node-1'' addr port1 db1 ps0 pubs1))\<rparr> =
      s3_storeOf area ''node-1'' addr port1 db1 ps pubs1" for ps ps0
    by (simp add: s3_storeOf_def)
  show ?thesis
    by (simp add: setPeerEvent_def getStore_s3 areas_s3 peerEvent_def getNextState_def
        transitionTable_def upd putStore_s3)
qed

lemma fullSync_s3:
  assumes "port1 \<noteq> port2"
  shows "fullSync allRpcsSucceed ''node-1'' area ''node-2''
     (s3_world area addr port1 port2 db1 pubs1
        [(''node-2'', \<lparr>peerAddr = addr, ctrlPort = port2, state = SYNCING\<rparr>)] db2 pubs2 c) =
   (let theirHashes = areaDb_dump_hashes db2;
        records = filter (\<lambda>(k, v). k \<in> set (need_from_peer theirHashes db1)) db2;
        give = give_to_peer theirHashes db1
    in s3_world area addr port1 port2
         (snd (areaDb_merge records db1)) (publishedAfter area (areaDb_merge records db1) pubs1)
         [(''node-2'', \<lparr>peerAddr = addr, ctrlPort = port2, state = INITIALIZED\<rparr>)]
         (snd (areaDb_merge give db2)) (publishedAfter area (areaDb_merge give db2) pubs2)
         (bumpFull c))"
  using assms
  by (simp add: fullSync_def finalizeFullSync_def allRpcsSucceed_def getStore_s3 areas_s3
      counters_s3 responderAt_s3 mergeInto_s3 setPeerEvent_s3 nodeId_s3 bumpFull_def Let_def)

lemma pendingSyncs_s3:
  "pendingSyncs (s3_world area addr port1 port2 db1 pubs1
        [(''node-2'', \<lparr>peerAddr = a, ctrlPort = p, state = SYNCING\<rparr>)] db2 pubs2 c) =
   [(''node-1'', area, ''node-2'')]"
  by (simp add: pendingSyncs_def s3_world_def s3_storeOf_def)

lemma createThriftValue_sel:
  "version (createThriftValue t v orig d) = v"
  "originatorId (createThriftValue t v orig d) = orig"
  "value_opt (createThriftValue t v orig d) = Some d"
  "hash (createThriftValue t v orig d) = None"
  by (simp_all add: createThriftValue_def)

lemma dominates_created:
  "dominates (createThriftValue t v orig d) (createThriftValue t' v' orig' d') \<longleftrightarrow>
     v' < v \<or> (v = v' \<and> (orig' < orig \<or> (orig = orig' \<and> d' < d)))"
  by (simp add: dominates_def fp_dominates_def fingerprintOf_def createThriftValue_sel)

lemma areaDb_merge_fresh:
  "map_of db key = None \<Longrightarrow> areaDb_merge [(key, v)] db = ([key], db @ [(key, v)])"
  by (simp add: areaDb_set_def)

lemma publishedAfter_fresh:
  "map_of db key = None \<Longrightarrow>
   publishedAfter area ([key], db @ [(key, v)]) pubs = pubs @ [pubOf area [(key, v)]]"
proof -
  assume "map_of db key = None"
  then have "key \<notin> fst ` set db" by (simp add: map_of_eq_None_iff)
  then have "filter (\<lambda>(k, v). k = key) db = []"
    by (induction db) auto
  then show ?thesis by (simp add: publishedAfter_def)
qed

lemma initial_world:
  "\<lparr>stores = [createKvStore area ''node-1'' addr port1, createKvStore area ''node-2'' addr port2],
     counters = zeroCounters\<rparr> = s3_world area addr port1 port2 [] [] [] [] [] zeroCounters"
  by (simp add: s3_world_def s3_storeOf_def createKvStore_def)

lemma inject_A:
  "setKeyEach ''node-1'' area
     (map (\<lambda>(key, ver). (key, createThriftValue t ver ''node-1'' ''value-1'')) keyVersionAs)
     (s3_world area addr port1 port2 [] [] [] db2 pubs2 c) =
   ([True, True, True, True],
    s3_world area addr port1 port2 (s3_dbA t) (map (\<lambda>kv. pubOf area [kv]) (s3_dbA t)) [] db2 pubs2 c)"
  by (simp add: keyVersionAs_def wrapper_setKey_s3 areaDb_merge_fresh publishedAfter_def s3_dbA_def
      del: areaDb_merge.simps)

lemma inject_B:
  "setKeyEach ''node-2'' area
     (map (\<lambda>(key, ver). (key, createThriftValue t ver ''node-1''
         (if key = ''key1'' then ''value-1'' else ''value-2''))) keyVersionBs)
     (s3_world area addr port1 port2 db1 pubs1 [] [] [] c) =
   ([True, True, True, True],
    s3_world area addr port1 port2 db1 pubs1 [] (s3_dbB t) (map (\<lambda>kv. pubOf area [kv]) (s3_dbB t)) c)"
  by (simp add: keyVersionBs_def wrapper_setKey_s3 areaDb_merge_fresh publishedAfter_def s3_dbB_def
      del: areaDb_merge.simps)

lemma hashOf_dump:
  "hashOf (v\<lparr>value_opt := None, hash := Some (fingerprintOf v)\<rparr>) = fingerprintOf v"
  by (simp add: hashOf_def)

lemma fp_dominates_created:
  "fp_dominates (fingerprintOf (createThriftValue t v orig d))
                (fingerprintOf (createThriftValue t' v' orig' d')) \<longleftrightarrow>
     v' < v \<or> (v = v' \<and> (orig' < orig \<or> (orig = orig' \<and> d' < d)))"
  using dominates_created[of t v orig d t' v' orig' d'] by (simp add: dominates_def)

lemma sync_need:
  "need_from_peer (areaDb_dump_hashes (s3_dbB t)) (s3_dbA t) = [''key3'', ''key4'']"
  by (simp add: need_from_peer_def areaDb_dump_hashes_def s3_dbA_def s3_dbB_def hashOf_dump
      fp_dominates_created)

lemma sync_give:
  "give_to_peer (areaDb_dump_hashes (s3_dbB t)) (s3_dbA t) =
     [(''key0'', createThriftValue t 5 ''node-1'' ''value-1''),
      (''key2'', createThriftValue t 9 ''node-1'' ''value-1'')]"
  by (simp add: give_to_peer_def areaDb_dump_hashes_def s3_dbA_def s3_dbB_def hashOf_dump
      fp_dominates_created)

lemma sync_records:
  "filter (\<lambda>(k, v). k = ''key3'' \<or> k = ''key4'') (s3_dbB t) =
     [(''key3'', createThriftValue t 9 ''node-1'' ''value-2''),
      (''key4'', createThriftValue t 6 ''node-1'' ''value-2'')]"
  by (simp add: s3_dbB_def)

lemma sync_merge1:
  "areaDb_merge [(''key3'', createThriftValue t 9 ''node-1'' ''value-2''),
                 (''key4'', createThriftValue t 6 ''node-1'' ''value-2'')] (s3_dbA t) =
     ([''key3'', ''key4''], s3_final1 t)"
  by (simp add: areaDb_set_def s3_dbA_def s3_final1_def dominates_created)

lemma sync_merge2:
  "areaDb_merge [(''key0'', createThriftValue t 5 ''node-1'' ''value-1''),
                 (''key2'', createThriftValue t 9 ''node-1'' ''value-1'')] (s3_dbB t) =
     ([''key0'', ''key2''], s3_final2 t)"
  by (simp add: areaDb_set_def s3_dbB_def s3_final2_def dominates_created)

lemma sync_published1:
  "publishedAfter area ([''key3'', ''key4''], s3_final1 t) pubs =
     pubs @ [pubOf area [(''key3'', createThriftValue t 9 ''node-1'' ''value-2''),
                         (''key4'', createThriftValue t 6 ''node-1'' ''value-2'')]]"
  by (simp add: publishedAfter_def s3_final1_def)

lemma sync_published2:
  "publishedAfter area ([''key0'', ''key2''], s3_final2 t) pubs =
     pubs @ [pubOf area [(''key2'', createThriftValue t 9 ''node-1'' ''value-1''),
                         (''key0'', createThriftValue t 5 ''node-1'' ''value-1'')]]"
  by (simp add: publishedAfter_def s3_final2_def)

lemma s3_run:
  assumes "port1 \<noteq> port2"
  shows "unidirectionThriftFullSync area addr port1 port2 t =
           (replicate 9 True, s3_finalWorld area addr port1 port2 t)"
proof -
  have sync: "quiesce allRpcsSucceed
      (s3_world area addr port1 port2 (s3_dbA t) (map (\<lambda>kv. pubOf area [kv]) (s3_dbA t))
         [(''node-2'', \<lparr>peerAddr = addr, ctrlPort = port2, state = SYNCING\<rparr>)]
         (s3_dbB t) (map (\<lambda>kv. pubOf area [kv]) (s3_dbB t)) zeroCounters) =
      s3_finalWorld area addr port1 port2 t"
    by (simp add: quiesce_def pendingSyncs_s3 fullSync_s3[OF assms] sync_need sync_give
        sync_records sync_merge1 sync_merge2 sync_published1 sync_published2 s3_finalWorld_def
        Let_def
        del: areaDb_merge.simps)
  have spec: "getPeerSpec (createKvStore area ''node-2'' addr port2)\<lparr>state := SYNCING\<rparr> =
      \<lparr>peerAddr = addr, ctrlPort = port2, state = SYNCING\<rparr>"
    by (simp add: getPeerSpec_def createKvStore_def)
  show ?thesis
    unfolding unidirectionThriftFullSync_def Let_def initial_world
    by (simp add: inject_A inject_B wrapper_addPeer_s3 spec sync numeral_eq_Suc)
qed

lemma areaDb_dump_all: "areaDb_dump emptyKeyDumpParams db = db"
  by (simp add: areaDb_dump_def emptyKeyDumpParams_def)

lemma wrapper_dumpAll_s3:
  "wrapper_dumpAll ''node-1'' area (s3_world area addr port1 port2 db1 pubs1 peers1 db2 pubs2 c) = Inr db1"
  "wrapper_dumpAll ''node-2'' area (s3_world area addr port1 port2 db1 pubs1 peers1 db2 pubs2 c) = Inr db2"
  by (simp_all add: wrapper_dumpAll_def dumpAll_def world_read_def getStore_s3 areas_s3
      areaDb_dump_all emptyPublication_def)

lemma wrapper_getKey_s3:
  assumes "delay \<le> kReadTimeout"
  shows "fst (wrapper_getKey kReadTimeout delay ''node-1'' area key
            (s3_world area addr port1 port2 db1 pubs1 peers1 db2 pubs2 c)) = map_of db1 key"
    and "fst (wrapper_getKey kReadTimeout delay ''node-2'' area key
            (s3_world area addr port1 port2 db1 pubs1 peers1 db2 pubs2 c)) = map_of db2 key"
  using assms
  by (simp_all add: wrapper_getKey_def getKey_def world_read_def getStore_s3 areas_s3
      kvStore_getKvStoreKeyVals_def getTry_def emptyPublication_def map_of_filter_key)

lemma s3_final1_expected: "s3_final1 t = s3_expected t"
  by (simp add: s3_final1_def s3_expected_def)

lemma s3_final2_set: "set (s3_final2 t) = set (s3_expected t)"
  by (auto simp: s3_final2_def s3_expected_def)

lemma s3_final2_map_of: "map_of (s3_final2 t) key = map_of (s3_expected t) key"
  by (simp add: s3_final2_def s3_expected_def)

lemma afterFullSync_eq:
  "port1 \<noteq> port2 \<Longrightarrow> afterFullSync area addr port1 port2 t = s3_finalWorld area addr port1 port2 t"
  by (simp add: afterFullSync_def s3_run)

subsection \<open>The outcome\<close>

text \<open>
  Claim C2. Store 1 is given (key0, 5), (key1, 1), (key2, 9), (key3, 1) and store 2
  (key1, 1), (key2, 1), (key3, 9), (key4, 6); every \<^verbatim>\<open>setKey\<close> and the
  \<^verbatim>\<open>addPeer\<close> of store 1 return true. After quiescence \<^verbatim>\<open>dumpAll\<close> on either
  store returns exactly the five records (key0, 5), (key1, 1), (key2, 9), (key3, 9),
  (key4, 6), the record of the larger version for each key, and \<^verbatim>\<open>getKey\<close> answered
  within the read timeout returns the same record on both stores for every key. The two
  servers listen on different ports.
\<close>

theorem unidirectional_full_sync_converges:
  assumes "port1 \<noteq> port2"
  shows "fst (unidirectionThriftFullSync area addr port1 port2 t) = replicate 9 True \<and>
    map_sum id set (wrapper_dumpAll ''node-1'' area (afterFullSync area addr port1 port2 t)) =
      Inr (set (s3_expected t)) \<and>
    map_sum id set (wrapper_dumpAll ''node-2'' area (afterFullSync area addr port1 port2 t)) =
      Inr (set (s3_expected t)) \<and>
    map_sum id length (wrapper_dumpAll ''node-1'' area (afterFullSync area addr port1 port2 t)) = Inr 5 \<and>
    map_sum id length (wrapper_dumpAll ''node-2'' area (afterFullSync area addr port1 port2 t)) = Inr 5 \<and>
    (delay \<le> kReadTimeout \<longrightarrow>
       fst (wrapper_getKey kReadTimeout delay ''node-1'' area key (afterFullSync area addr port1 port2 t)) =
         map_of (s3_expected t) key \<and>
       fst (wrapper_getKey kReadTimeout delay ''node-2'' area key (afterFullSync area addr port1 port2 t)) =
         map_of (s3_expected t) key)"
proof -
  have len: "length (s3_final1 t) = 5" "length (s3_final2 t) = 5"
    by (simp_all add: s3_final1_def s3_final2_def)
  show ?thesis
    unfolding afterFullSync_eq[OF assms] s3_run[OF assms] s3_finalWorld_def
    by (simp add: wrapper_dumpAll_s3 wrapper_getKey_s3 len s3_final2_set s3_final2_map_of
        s3_final1_expected[symmetric])
qed

theorem unidirectional_full_sync_converges_witness:
  "(1::nat) \<noteq> 2 \<and>
   map_sum id set (wrapper_dumpAll ''node-2'' ''area'' (afterFullSync ''area'' ''::1'' 1 2 0)) =
     Inr (set (s3_expected 0)) \<and>
   map_sum id length (wrapper_dumpAll ''node-2'' ''area'' (afterFullSync ''area'' ''::1'' 1 2 0)) = Inr 5 \<and>
   fst (wrapper_getKey 10 0 ''node-1'' ''area'' ''key3'' (afterFullSync ''area'' ''::1'' 1 2 0)) =
     Some (createThriftValue 0 9 ''node-1'' ''value-2'') \<and>
   fst (wrapper_getKey 10 0 ''node-2'' ''area'' ''key0'' (afterFullSync ''area'' ''::1'' 1 2 0)) =
     Some (createThriftValue 0 5 ''node-1'' ''value-1'')"
  using unidirectional_full_sync_converges[of 1 2 "''area''" "''::1''" 0 0 10 "''key3''"]
    unidirectional_full_sync_converges[of 1 2 "''area''" "''::1''" 0 0 10 "''key0''"]
  by (simp add: s3_expected_def)

text \<open>
  Claim C7. After the scenario the counters read: one full sync, one successful full
  sync, no failed full sync, one finalized sync, one successful finalized sync, no failed
  finalized sync.
\<close>

theorem full_sync_counters:
  assumes "port1 \<noteq> port2"
  shows "num_full_sync (counters (afterFullSync area addr port1 port2 t)) = 1 \<and>
    num_full_sync_success (counters (afterFullSync area addr port1 port2 t)) = 1 \<and>
    num_full_sync_failure (counters (afterFullSync area addr port1 port2 t)) = 0 \<and>
    num_finalized_sync (counters (afterFullSync area addr port1 port2 t)) = 1 \<and>
    num_finalized_sync_success (counters (afterFullSync area addr port1 port2 t)) = 1 \<and>
    num_finalized_sync_failure (counters (afterFullSync area addr port1 port2 t)) = 0"
  unfolding afterFullSync_eq[OF assms] s3_finalWorld_def
  by (simp add: counters_s3 bumpFull_def zeroCounters_def)

theorem full_sync_counters_witness:
  "(1::nat) \<noteq> 2 \<and>
   counters (afterFullSync ''area'' ''::1'' 1 2 0) =
     \<lparr>num_full_sync = 1, num_full_sync_success = 1, num_full_sync_failure = 0,
      num_finalized_sync = 1, num_finalized_sync_success = 1, num_finalized_sync_failure = 0\<rparr>"
  using full_sync_counters[of 1 2 "''area''" "''::1''" 0]
  by (cases "counters (afterFullSync ''area'' ''::1'' 1 2 0)") simp

end
